theory Spec2Isabelle
  imports Main
begin

section \<open>The questions plugin: data\<close>

text \<open>
  The plugin (\<^verbatim>\<open>questions/questions.py\<close>) interviews the recipient of a thread: it sends
  each configured question, waits for one direct message per question and posts a
  summary. Three commands write the configuration document that the interview reads.

  Texts are \<^typ>\<open>string\<close>s, over the code points 0 to 255. A Python dict that is iterated
  (\<^verbatim>\<open>responses\<close>) is an association list in insertion order. The collaborators the
  plugin calls (the thread, the channel, the command context, the logger) are not
  part of the plugin: each call is recorded as an \<open>event\<close> in the order it is made.
\<close>

record attachment =
  filename :: string
  url :: string

record asset =
  asset_url :: string

text \<open>
  The summary reads \<^verbatim>\<open>m.author.name\<close> and \<^verbatim>\<open>m.author.get("avatar", {}).url\<close>:
  \<open>avatar\<close> is the entry that \<^verbatim>\<open>get\<close> finds, \<open>None\<close> when it falls back to the
  default \<^verbatim>\<open>{}\<close>.
\<close>

record user =
  name :: string
  avatar :: "asset option"

record message =
  content :: string
  attachments :: "attachment list"
  author :: user

text \<open>The document stored under \<^verbatim>\<open>{'_id': 'config'}\<close>; a key that is absent is \<open>None\<close>.\<close>

record config_doc =
  questions :: "string list option"
  intro :: "string option"
  outro :: "string option"
  move_to :: "string option"

datatype channel = Channel int

record embed_field =
  field_name :: string
  field_value :: string
  inline :: bool

record embed =
  color :: nat
  timestamp :: nat
  embed_fields :: "embed_field list"
  author_name :: string
  icon_url :: string

datatype py_error = KeyError string | ValueError | AttributeError

datatype outcome = Returned | Raised py_error

datatype event =
    ThreadReply string
  | ThreadClose string
  | Sleep nat
  | ChannelSend embed
  | MessagePin embed
  | LogWarning string
  | ChannelEdit channel bool
  | CtxSend string
  | FindOneAndUpdate config_doc

record bot =
  main_color :: nat
  get_channel :: "int \<Rightarrow> channel option"

section \<open>Python built-ins used by the plugin\<close>

text \<open>
  \<^verbatim>\<open>str.isspace\<close> on one character, which is also the set that \<^verbatim>\<open>str.strip()\<close> removes:
  among the code points 0 to 255 these are 9 to 13, 28 to 32, 133 (U+0085) and
  160 (U+00A0).
\<close>

definition isspace :: "char \<Rightarrow> bool" where
  "isspace c =
     (let n = (of_char c :: nat)
      in (9 \<le> n \<and> n \<le> 13) \<or> (28 \<le> n \<and> n \<le> 32) \<or> n = 133 \<or> n = 160)"

definition strip :: "string \<Rightarrow> string" where
  "strip s = rev (dropWhile isspace (rev (dropWhile isspace s)))"

text \<open>
  The whitespace that the integer parser skips (\<^verbatim>\<open>Py_ISSPACE\<close>): the codes 9 to 13
  and 32 only.
\<close>

definition c_isspace :: "char \<Rightarrow> bool" where
  "c_isspace c = (let n = (of_char c :: nat) in (9 \<le> n \<and> n \<le> 13) \<or> n = 32)"

definition isdigit :: "char \<Rightarrow> bool" where
  "isdigit c = (let n = (of_char c :: nat) in 48 \<le> n \<and> n \<le> 57)"

definition digit_val :: "char \<Rightarrow> nat" where
  "digit_val c = of_char c - 48"

text \<open>
  Before it parses a text that is not pure ASCII, \<^verbatim>\<open>int\<close> rewrites it: a code point
  below 127 stays, a whitespace character becomes a space, a decimal digit becomes its
  ASCII digit (from 127 to 255 there is none), and at the first other character the
  text is cut and ends in \<^verbatim>\<open>?\<close>.
\<close>

fun transform_space :: "string \<Rightarrow> string" where
  "transform_space [] = []"
| "transform_space (c # cs) =
     (if (of_char c :: nat) < 127 then c # transform_space cs
      else if isspace c then CHR '' '' # transform_space cs
      else [CHR ''?''])"

definition to_ascii :: "string \<Rightarrow> string" where
  "to_ascii s = (if list_all (\<lambda>c. (of_char c :: nat) < 128) s then s else transform_space s)"

text \<open>
  The scan over the digits of the literal: digits and underscores are taken, two
  underscores in a row or an underscore at the end are an error. \<open>prev\<close> is the
  character before. The result is the digits read and the text that is left.
\<close>

fun scan_digits :: "char \<Rightarrow> string \<Rightarrow> (string \<times> string) option" where
  "scan_digits prev [] = (if prev = CHR ''_'' then None else Some ([], []))"
| "scan_digits prev (c # cs) =
     (if isdigit c then map_option (\<lambda>(ds, rest). (c # ds, rest)) (scan_digits c cs)
      else if c = CHR ''_'' then (if prev = CHR ''_'' then None else scan_digits c cs)
      else if prev = CHR ''_'' then None
      else Some ([], c # cs))"

text \<open>The sign in front of the literal, if there is one.\<close>

fun read_sign :: "string \<Rightarrow> bool \<times> string" where
  "read_sign [] = (False, [])"
| "read_sign (c # cs) =
     (if c = CHR ''+'' then (False, cs)
      else if c = CHR ''-'' then (True, cs)
      else (False, c # cs))"

text \<open>The interpreter's limit on the digits of a decimal literal, at its default.\<close>

definition int_max_str_digits :: nat where
  "int_max_str_digits = 4300"

text \<open>
  \<^verbatim>\<open>int(s)\<close> for a text \<open>s\<close>, in base 10; \<open>None\<close> stands for \<^verbatim>\<open>ValueError\<close>. After the
  rewriting above the parser skips whitespace, reads one sign, refuses an underscore in
  front, scans the digits, refuses more digits than the limit and a literal with no
  digit, skips whitespace again and must then be at the end of the text.
\<close>

definition py_int :: "string \<Rightarrow> int option" where
  "py_int s =
     (let (neg, str) = read_sign (dropWhile c_isspace (to_ascii s))
      in if take 1 str = ''_'' then None
         else case scan_digits (CHR 0x00) str of
                None \<Rightarrow> None
              | Some (ds, rest) \<Rightarrow>
                  if int_max_str_digits < length ds then None
                  else if ds = [] then None
                  else if dropWhile c_isspace rest \<noteq> [] then None
                  else let n = int (foldl (\<lambda>acc c. 10 * acc + digit_val c) 0 ds)
                       in Some (if neg then - n else n))"

fun str_nat :: "nat \<Rightarrow> string" where
  "str_nat n =
     (if n < 10 then [''0123456789'' ! n]
      else str_nat (n div 10) @ [''0123456789'' ! (n mod 10)])"

text \<open>\<^verbatim>\<open>str(i)\<close> for an integer \<open>i\<close>.\<close>

definition py_str :: "int \<Rightarrow> string" where
  "py_str i = (if i < 0 then CHR ''-'' # str_nat (nat (- i)) else str_nat (nat i))"

text \<open>
  \<^verbatim>\<open>d[k] = v\<close> on a dict in insertion order: an existing key keeps its place and
  takes the new value, a new key goes to the end.
\<close>

fun dict_set :: "'k \<Rightarrow> 'v \<Rightarrow> ('k \<times> 'v) list \<Rightarrow> ('k \<times> 'v) list" where
  "dict_set k v [] = [(k, v)]"
| "dict_set k v ((k', v') # d) =
     (if k' = k then (k, v) # d else (k', v') # dict_set k v d)"

section \<open>The configuration store\<close>

definition empty_doc :: config_doc where
  "empty_doc = \<lparr>questions = None, intro = None, outro = None, move_to = None\<rparr>"

text \<open>\<^verbatim>\<open>await self.db.find_one({'_id': 'config'}) or {}\<close>\<close>

definition find_one_or_empty :: "config_doc option \<Rightarrow> config_doc" where
  "find_one_or_empty db = (case db of None \<Rightarrow> empty_doc | Some d \<Rightarrow> d)"

text \<open>
  Modelled from the spec: the configuration store's \<^verbatim>\<open>upsertMerge\<close>, which the plugin
  calls as \<^verbatim>\<open>find_one_and_update({'_id': 'config'}, {'$set': upd}, upsert=True)\<close>; the
  store is a collaborator outside the plugin's source. "Only the fields the variant
  produces (plus moveTo) are set; unrelated existing fields are preserved", and a
  document that does not exist yet is created. The argument \<open>upd\<close> is the
  \<^verbatim>\<open>$set\<close> document: a key it does not carry is \<open>None\<close>.
\<close>

definition find_one_and_update :: "config_doc option \<Rightarrow> config_doc \<Rightarrow> config_doc option" where
  "find_one_and_update db upd =
     (let d = find_one_or_empty db in
      Some \<lparr>questions = (case questions upd of None \<Rightarrow> questions d | Some q \<Rightarrow> Some q),
            intro = (case intro upd of None \<Rightarrow> intro d | Some t \<Rightarrow> Some t),
            outro = (case outro upd of None \<Rightarrow> outro d | Some t \<Rightarrow> Some t),
            move_to = (case move_to upd of None \<Rightarrow> move_to d | Some t \<Rightarrow> Some t)\<rparr>)"

section \<open>The interview: \<^verbatim>\<open>on_thread_ready\<close>\<close>

text \<open>Lines 71 to 75: the answer recorded for a reply.\<close>

definition attachment_line :: "attachment \<Rightarrow> string" where
  "attachment_line a = ''\<newline>`'' @ filename a @ ''`: '' @ url a"

definition derive_answer :: "message \<Rightarrow> string" where
  "derive_answer r =
     (let answer = (if strip (content r) \<noteq> [] then content r else ''<No Message Content>'') in
      if length (attachments r) > 0
      then foldl (\<lambda>acc a. acc @ attachment_line a) (answer @ ''\<newline>'') (attachments r)
      else answer)"

text \<open>
  The local variables of \<^verbatim>\<open>on_thread_ready\<close> that the loop changes, with the calls
  made so far. \<open>last_m\<close> is the variable \<^verbatim>\<open>m\<close>.
\<close>

record frame =
  trace :: "event list"
  responses :: "(string \<times> string) list"
  last_m :: "message option"

text \<open>
  Lines 60 to 77. The waits of one run are numbered in the order they are made;
  \<open>wait i\<close> is what the wait number \<open>i\<close> gives: a message, or \<open>None\<close> for
  \<^verbatim>\<open>asyncio.TimeoutError\<close>. The result is \<open>False\<close> when the loop left through the
  \<^verbatim>\<open>return\<close> of the timeout handler.
\<close>

fun ask_loop :: "(nat \<Rightarrow> message option) \<Rightarrow> nat \<Rightarrow> string list \<Rightarrow> frame \<Rightarrow> bool \<times> frame" where
  "ask_loop wait i [] s = (True, s)"
| "ask_loop wait i (question # qs) s =
     (let s1 = s\<lparr>trace := trace s @ [ThreadReply question]\<rparr> in
      case wait i of
        None \<Rightarrow>
          (False, s1\<lparr>trace := trace s1 @
             [ThreadClose ''Closed due to inactivity and not responding to questions.'']\<rparr>)
      | Some r \<Rightarrow>
          ask_loop wait (Suc i) qs
            (s1\<lparr>responses := dict_set question (derive_answer r) (responses s1),
                last_m := Some r\<rparr>))"

text \<open>What a run of the handler leaves: the calls made, the answer record, how it ended.\<close>

record run =
  run_trace :: "event list"
  run_responses :: "(string \<times> string) list"
  run_outcome :: outcome

text \<open>
  Lines 80 to 83: the embed for the answers \<open>resp\<close>, with the author data of the
  message \<open>r\<close> whose avatar entry is \<open>a\<close>.
\<close>

definition summary_embed ::
  "bot \<Rightarrow> nat \<Rightarrow> (string \<times> string) list \<Rightarrow> message \<Rightarrow> asset \<Rightarrow> embed" where
  "summary_embed b now resp r a =
     \<lparr>color = main_color b, timestamp = now,
      embed_fields = map (\<lambda>(k, v). \<lparr>field_name = k, field_value = v, inline = False\<rparr>) resp,
      author_name = name (author r), icon_url = asset_url a\<rparr>"

text \<open>
  Line 83 reads \<^verbatim>\<open>m.author\<close> and the \<^verbatim>\<open>url\<close> of the avatar entry: \<^verbatim>\<open>None\<close> has no
  \<^verbatim>\<open>author\<close> and the default \<^verbatim>\<open>{}\<close> has no \<^verbatim>\<open>url\<close>, which is an \<^verbatim>\<open>AttributeError\<close>.
\<close>

definition build_embed :: "bot \<Rightarrow> nat \<Rightarrow> frame \<Rightarrow> py_error + embed" where
  "build_embed b now s =
     (case last_m s of
        None \<Rightarrow> Inl AttributeError
      | Some r \<Rightarrow>
          (case avatar (author r) of
             None \<Rightarrow> Inl AttributeError
           | Some a \<Rightarrow> Inr (summary_embed b now (responses s) r a)))"

text \<open>
  Lines 56 to 58 and 87 to 89: the intro or the outro is sent when the key is there and
  its text is not empty.
\<close>

definition reply_if_set :: "string option \<Rightarrow> event list" where
  "reply_if_set t = (case t of None \<Rightarrow> [] | Some x \<Rightarrow> if x = [] then [] else [ThreadReply x])"

text \<open>Lines 91 to 95, after the calls \<open>tr\<close>.\<close>

definition relocate :: "bot \<Rightarrow> config_doc \<Rightarrow> event list \<Rightarrow> event list \<times> outcome" where
  "relocate b config tr =
     (case move_to config of
        None \<Rightarrow> (tr, Raised (KeyError ''move_to''))
      | Some t \<Rightarrow>
          (case py_int t of
             None \<Rightarrow> (tr, Raised ValueError)
           | Some n \<Rightarrow>
               (case get_channel b n of
                  None \<Rightarrow> (tr @ [LogWarning ''Move-to category does not exist. Not moving.''], Returned)
                | Some c \<Rightarrow> (tr @ [ChannelEdit c True], Returned))))"

text \<open>
  Lines 46 to 95. \<open>now\<close> is what \<^verbatim>\<open>datetime.utcnow()\<close> gives at line 80, \<open>db\<close> the
  stored configuration document if there is one.
\<close>

definition on_thread_ready ::
  "bot \<Rightarrow> nat \<Rightarrow> config_doc option \<Rightarrow> (nat \<Rightarrow> message option) \<Rightarrow> run" where
  "on_thread_ready b now db wait =
     (let config = find_one_or_empty db in
      case questions config of
        None \<Rightarrow> \<lparr>run_trace = [], run_responses = [], run_outcome = Returned\<rparr>
      | Some [] \<Rightarrow> \<lparr>run_trace = [], run_responses = [], run_outcome = Returned\<rparr>
      | Some (q # qs) \<Rightarrow>
          (let s0 = \<lparr>trace = reply_if_set (intro config), responses = [], last_m = None\<rparr>
           in case ask_loop wait 0 (q # qs) s0 of
                (False, s1) \<Rightarrow>
                  \<lparr>run_trace = trace s1, run_responses = responses s1, run_outcome = Returned\<rparr>
              | (True, s1) \<Rightarrow>
                  (let tr2 = trace s1 @ [Sleep 1] in
                   case build_embed b now s1 of
                     Inl e \<Rightarrow>
                       \<lparr>run_trace = tr2, run_responses = responses s1, run_outcome = Raised e\<rparr>
                   | Inr e \<Rightarrow>
                       (let tr3 = tr2 @ [ChannelSend e, MessagePin e];
                            tr4 = tr3 @ reply_if_set (outro config);
                            (tr5, res) = relocate b config tr4
                        in \<lparr>run_trace = tr5, run_responses = responses s1,
                            run_outcome = res\<rparr>))))"

section \<open>The configuration commands\<close>

text \<open>What a command leaves: the calls made and the store.\<close>

record cmd_run =
  cmd_trace :: "event list"
  cmd_db :: "config_doc option"

text \<open>
  Lines 116 to 124, over \<^verbatim>\<open>range(1, count + 1)\<close>. Wait number 0 of the command follows
  the count prompt, so wait number \<open>i\<close> follows the prompt for question \<open>i\<close>. The
  result is \<open>None\<close> when the loop left through a \<^verbatim>\<open>return\<close>.
\<close>

fun question_loop ::
  "(nat \<Rightarrow> message option) \<Rightarrow> nat list \<Rightarrow> string list \<Rightarrow> event list \<Rightarrow> string list option \<times> event list"
  where
  "question_loop wait [] qs tr = (Some qs, tr)"
| "question_loop wait (i # is) qs tr =
     (let tr1 = tr @ [CtxSend (''What's question #'' @ py_str (int i) @ ''?'')] in
      case wait i of
        None \<Rightarrow> (None, tr1 @ [CtxSend ''Timed out.''])
      | Some r \<Rightarrow>
          if content r = [] then (None, tr1 @ [CtxSend ''Question must be text-only.''])
          else question_loop wait is (qs @ [content r]) tr1)"

text \<open>Lines 99 to 128; \<open>move_to_id\<close> is \<^verbatim>\<open>move_to.id\<close>.\<close>

definition configquestions ::
  "int \<Rightarrow> config_doc option \<Rightarrow> (nat \<Rightarrow> message option) \<Rightarrow> cmd_run" where
  "configquestions move_to_id db wait =
     (let tr0 = [CtxSend ''How many questions do you have?''] in
      case wait 0 of
        None \<Rightarrow> \<lparr>cmd_trace = tr0 @ [CtxSend ''Timed out.''], cmd_db = db\<rparr>
      | Some r \<Rightarrow>
          (case py_int (content r) of
             None \<Rightarrow> \<lparr>cmd_trace = tr0 @ [CtxSend ''Invalid input.''], cmd_db = db\<rparr>
           | Some count \<Rightarrow>
               (case question_loop wait [1..<Suc (nat count)] [] tr0 of
                  (None, tr1) \<Rightarrow> \<lparr>cmd_trace = tr1, cmd_db = db\<rparr>
                | (Some qs, tr1) \<Rightarrow>
                    (let upd = \<lparr>questions = Some qs, intro = None, outro = None,
                                   move_to = Some (py_str move_to_id)\<rparr>
                     in \<lparr>cmd_trace = tr1 @ [FindOneAndUpdate upd, CtxSend ''Saved''],
                         cmd_db = find_one_and_update db upd\<rparr>))))"

text \<open>Lines 132 to 145.\<close>

definition configoutro ::
  "int \<Rightarrow> config_doc option \<Rightarrow> (nat \<Rightarrow> message option) \<Rightarrow> cmd_run" where
  "configoutro move_to_id db wait =
     (let tr0 = [CtxSend ''Type the outro you want''] in
      case wait 0 of
        None \<Rightarrow> \<lparr>cmd_trace = tr0 @ [CtxSend ''Timed out.''], cmd_db = db\<rparr>
      | Some r \<Rightarrow>
          if content r = [] then \<lparr>cmd_trace = tr0 @ [CtxSend ''Outro must be text-only.''], cmd_db = db\<rparr>
          else
            (let upd = \<lparr>questions = None, intro = None, outro = Some (content r),
                           move_to = Some (py_str move_to_id)\<rparr>
             in \<lparr>cmd_trace = tr0 @ [FindOneAndUpdate upd, CtxSend ''Saved''],
                 cmd_db = find_one_and_update db upd\<rparr>))"

text \<open>Lines 149 to 162.\<close>

definition configintro ::
  "int \<Rightarrow> config_doc option \<Rightarrow> (nat \<Rightarrow> message option) \<Rightarrow> cmd_run" where
  "configintro move_to_id db wait =
     (let tr0 = [CtxSend ''Type the intro you want''] in
      case wait 0 of
        None \<Rightarrow> \<lparr>cmd_trace = tr0 @ [CtxSend ''Timed out.''], cmd_db = db\<rparr>
      | Some r \<Rightarrow>
          if content r = [] then \<lparr>cmd_trace = tr0 @ [CtxSend ''Intro must be text-only.''], cmd_db = db\<rparr>
          else
            (let upd = \<lparr>questions = None, intro = Some (content r), outro = None,
                           move_to = Some (py_str move_to_id)\<rparr>
             in \<lparr>cmd_trace = tr0 @ [FindOneAndUpdate upd, CtxSend ''Saved''],
                 cmd_db = find_one_and_update db upd\<rparr>))"

section \<open>Example inputs\<close>

text \<open>Concrete inputs on which the theorems below are run.\<close>

definition example_user :: user where
  "example_user = \<lparr>name = ''ann'', avatar = Some \<lparr>asset_url = ''https://cdn/ann.png''\<rparr>\<rparr>"

definition text_reply :: "string \<Rightarrow> message" where
  "text_reply t = \<lparr>content = t, attachments = [], author = example_user\<rparr>"

text \<open>A bot on which the only channel that exists has the id 42.\<close>

definition example_bot :: bot where
  "example_bot =
     \<lparr>main_color = 7, get_channel = (\<lambda>n. if n = 42 then Some (Channel 42) else None)\<rparr>"

definition example_config :: "string list \<Rightarrow> string \<Rightarrow> config_doc" where
  "example_config qs t =
     \<lparr>questions = Some qs, intro = Some ''hello'', outro = None, move_to = Some t\<rparr>"

section \<open>Facts about the loops\<close>

text \<open>The equations that evaluate \<^verbatim>\<open>int\<close> on a given text.\<close>

lemmas py_int_eval =
  py_int_def to_ascii_def c_isspace_def isspace_def isdigit_def digit_val_def
  int_max_str_digits_def Let_def

lemma dict_set_fresh: "k \<notin> fst ` set d \<Longrightarrow> dict_set k v d = d @ [(k, v)]"
  by (induction d) auto

lemma ask_loop_replies:
  "\<forall>j<length qs. wait (i + j) \<noteq> None \<Longrightarrow>
   ask_loop wait i qs s =
     (True, s\<lparr>trace := trace s @ map ThreadReply qs,
              responses := fold (\<lambda>(q, r). dict_set q (derive_answer r))
                             (zip qs (map (\<lambda>j. the (wait j)) [i..<i + length qs])) (responses s),
              last_m := (if qs = [] then last_m s else wait (i + (length qs - 1)))\<rparr>)"
proof (induction qs arbitrary: i s)
  case Nil
  then show ?case by simp
next
  case (Cons q qs)
  from Cons.prems have h0: "wait i \<noteq> None" by force
  then obtain r where r: "wait i = Some r" by blast
  from Cons.prems have hs: "\<forall>j<length qs. wait (Suc i + j) \<noteq> None" by force
  have "[i..<i + length (q # qs)] = i # [Suc i..<i + length (q # qs)]"
    by (rule upt_conv_Cons) simp
  then have up: "[i..<i + length (q # qs)] = i # [Suc i..<Suc i + length qs]"
    by simp
  have lm: "qs \<noteq> [] \<Longrightarrow> Suc (i + (length qs - Suc 0)) = i + length qs"
    by (cases qs) auto
  show ?case
    unfolding up
    using Cons.IH [OF hs, of "s\<lparr>trace := trace s @ [ThreadReply q],
        responses := dict_set q (derive_answer r) (responses s), last_m := Some r\<rparr>"] r lm
    by (cases "qs = []") (simp_all add: Let_def del: upt_Suc)
qed

lemma ask_loop_timeout:
  "k < length qs \<Longrightarrow> \<forall>j<k. wait (i + j) \<noteq> None \<Longrightarrow> wait (i + k) = None \<Longrightarrow>
   ask_loop wait i qs s =
     (False, s\<lparr>trace := trace s @ map ThreadReply (take (Suc k) qs) @
                  [ThreadClose ''Closed due to inactivity and not responding to questions.''],
              responses := fold (\<lambda>(q, r). dict_set q (derive_answer r))
                             (zip (take k qs) (map (\<lambda>j. the (wait j)) [i..<i + k])) (responses s),
              last_m := (if k = 0 then last_m s else wait (i + (k - 1)))\<rparr>)"
proof (induction qs arbitrary: i k s)
  case Nil
  then show ?case by simp
next
  case (Cons q qs)
  show ?case
  proof (cases k)
    case 0
    with Cons.prems show ?thesis by simp
  next
    case (Suc k')
    from Cons.prems Suc have h0: "wait i \<noteq> None" by force
    then obtain r where r: "wait i = Some r" by blast
    from Cons.prems Suc have hs: "\<forall>j<k'. wait (Suc i + j) \<noteq> None" by force
    from Cons.prems Suc have hk: "k' < length qs" "wait (Suc i + k') = None" by auto
    have up: "[i..<i + k] = i # [Suc i..<Suc i + k']"
      using Suc by (simp add: upt_conv_Cons)
    have lm: "k' \<noteq> 0 \<Longrightarrow> Suc (i + (k' - Suc 0)) = i + k'"
      by (cases k') auto
    show ?thesis
      unfolding up
      using Cons.IH [OF hk(1) hs hk(2), of "s\<lparr>trace := trace s @ [ThreadReply q],
        responses := dict_set q (derive_answer r) (responses s), last_m := Some r\<rparr>"] r Suc lm
      by (cases "k' = 0") (simp_all add: Let_def del: upt_Suc)
  qed
qed

lemma fold_dict_set_distinct:
  "distinct qs \<Longrightarrow> set qs \<inter> fst ` set d = {} \<Longrightarrow> length rs = length qs \<Longrightarrow>
   fold (\<lambda>(q, r). dict_set q (f r)) (zip qs rs) d = d @ zip qs (map f rs)"
proof (induction qs arbitrary: rs d)
  case Nil
  then show ?case by simp
next
  case (Cons q qs)
  then obtain r rs' where rs: "rs = r # rs'" by (cases rs) auto
  from Cons.prems have fresh: "q \<notin> fst ` set d" by auto
  have "set qs \<inter> fst ` set (d @ [(q, f r)]) = {}"
    using Cons.prems by auto
  with Cons.IH [of "d @ [(q, f r)]" rs'] Cons.prems rs
  show ?case by (simp add: dict_set_fresh [OF fresh])
qed

lemma foldl_attachment_lines:
  "foldl (\<lambda>acc a. acc @ attachment_line a) t as = t @ concat (map attachment_line as)"
  by (induction as arbitrary: t) auto

lemma dict_set_keys: "fst ` set (dict_set k v d) = insert k (fst ` set d)"
proof (induction d)
  case Nil
  then show ?case by simp
next
  case (Cons p d)
  obtain k' v' where p: "p = (k', v')" by (cases p)
  show ?case
  proof (cases "k' = k")
    case True
    then show ?thesis unfolding p by simp
  next
    case False
    then show ?thesis unfolding p using Cons.IH by auto
  qed
qed

lemma dict_set_length: "length (dict_set k v d) \<le> Suc (length d)"
  by (induction d) auto

lemma fold_dict_set_keys:
  "fst ` set (fold (\<lambda>(q, r). dict_set q (f r)) (zip qs rs) d) \<subseteq> fst ` set d \<union> set qs \<and>
   length (fold (\<lambda>(q, r). dict_set q (f r)) (zip qs rs) d) \<le> length d + length (zip qs rs)"
proof (induction qs arbitrary: rs d)
  case Nil
  then show ?case by simp
next
  case (Cons q qs)
  show ?case
  proof (cases rs)
    case Nil
    then show ?thesis by auto
  next
    case (Cons r rs')
    from Cons.IH [of rs' "dict_set q (f r) d"] dict_set_length [of q "f r" d] Cons
    show ?thesis by (auto simp: dict_set_keys)
  qed
qed

lemma on_thread_ready_completed:
  assumes "questions (find_one_or_empty db) = Some qs" and "qs \<noteq> []"
    and "\<forall>j<length qs. wait j \<noteq> None"
    and "wait (length qs - 1) = Some r" and "avatar (author r) = Some a"
  shows "on_thread_ready b now db wait =
     (let config = find_one_or_empty db;
          resp = fold (\<lambda>(q, r). dict_set q (derive_answer r))
                   (zip qs (map (\<lambda>j. the (wait j)) [0..<length qs])) [];
          e = summary_embed b now resp r a;
          out = relocate b config
                  (reply_if_set (intro config) @ map ThreadReply qs @
                   [Sleep 1, ChannelSend e, MessagePin e] @ reply_if_set (outro config))
      in \<lparr>run_trace = fst out, run_responses = resp, run_outcome = snd out\<rparr>)"
proof -
  obtain q qs' where qs: "qs = q # qs'" using assms(2) by (cases qs) auto
  have loop: "ask_loop wait 0 qs s =
      (True, s\<lparr>trace := trace s @ map ThreadReply qs,
               responses := fold (\<lambda>(q, r). dict_set q (derive_answer r))
                              (zip qs (map (\<lambda>j. the (wait j)) [0..<length qs])) (responses s),
               last_m := Some r\<rparr>)" for s
    using ask_loop_replies [of qs wait 0 s] assms(2,3,4) by simp
  show ?thesis
    using assms(1,5) loop unfolding qs
    by (simp add: on_thread_ready_def Let_def build_embed_def split: prod.splits)
qed



text \<open>The question loop of \<^verbatim>\<open>configquestions\<close>.\<close>

lemma question_loop_answered:
  "\<forall>j\<in>set js. \<exists>m. wait j = Some m \<and> content m \<noteq> [] \<Longrightarrow>
   question_loop wait js qs tr =
     (Some (qs @ map (\<lambda>j. content (the (wait j))) js),
      tr @ map (\<lambda>j. CtxSend (''What's question #'' @ py_str (int j) @ ''?'')) js)"
proof (induction js arbitrary: qs tr)
  case Nil
  then show ?case by simp
next
  case (Cons i js)
  from Cons.prems obtain m where m: "wait i = Some m" "content m \<noteq> []" by auto
  from Cons.prems have rest: "\<forall>j\<in>set js. \<exists>m. wait j = Some m \<and> content m \<noteq> []" by simp
  show ?case
    using Cons.IH [OF rest] m by (simp add: Let_def)
qed

lemma question_loop_empty_reply:
  "\<forall>j\<in>set pre. \<exists>m. wait j = Some m \<and> content m \<noteq> [] \<Longrightarrow>
   wait i = Some r \<Longrightarrow> content r = [] \<Longrightarrow>
   question_loop wait (pre @ i # post) qs tr =
     (None,
      tr @ map (\<lambda>j. CtxSend (''What's question #'' @ py_str (int j) @ ''?'')) (pre @ [i]) @
      [CtxSend ''Question must be text-only.''])"
proof (induction pre arbitrary: qs tr)
  case Nil
  then show ?case by (simp add: Let_def)
next
  case (Cons p pre)
  from Cons.prems obtain m where m: "wait p = Some m" "content m \<noteq> []" by auto
  from Cons.prems have rest: "\<forall>j\<in>set pre. \<exists>m. wait j = Some m \<and> content m \<noteq> []" by simp
  show ?case
    using Cons.IH [OF rest Cons.prems(2,3)] m by (simp add: Let_def)
qed

lemma question_loop_completes:
  "question_loop wait js qs tr = (Some qs', tr') \<Longrightarrow>
   \<forall>j\<in>set js. \<exists>m. wait j = Some m \<and> content m \<noteq> []"
proof (induction js arbitrary: qs tr)
  case Nil
  then show ?case by simp
next
  case (Cons i js)
  then show ?case
    by (auto simp: Let_def split: option.splits if_splits)
qed

lemma question_loop_no_update:
  "question_loop wait js qs tr = (res, tr') \<Longrightarrow>
   FindOneAndUpdate u \<in> set tr' \<Longrightarrow> FindOneAndUpdate u \<in> set tr"
proof (induction js arbitrary: qs tr)
  case Nil
  then show ?case by simp
next
  case (Cons i js)
  show ?case
  proof (cases "wait i")
    case None
    with Cons.prems show ?thesis by (auto simp: Let_def)
  next
    case (Some r)
    show ?thesis
    proof (cases "content r = []")
      case True
      with Some Cons.prems show ?thesis by (auto simp: Let_def)
    next
      case False
      with Some Cons.prems
      have "question_loop wait js (qs @ [content r])
              (tr @ [CtxSend (''What's question #'' @ py_str (int i) @ ''?'')]) = (res, tr')"
        by (simp add: Let_def)
      from Cons.IH [OF this Cons.prems(2)] show ?thesis by simp
    qed
  qed
qed

lemma question_loop_first_prompt:
  "\<exists>x. snd (question_loop wait (i # js) qs tr) =
         tr @ CtxSend (''What's question #'' @ py_str (int i) @ ''?'') # x"
proof -
  have ext: "\<exists>x. snd (question_loop wait js qs tr) = tr @ x" for js qs tr
  proof (induction js arbitrary: qs tr)
    case Nil
    then show ?case by simp
  next
    case (Cons i js)
    show ?case
    proof (cases "wait i")
      case None
      then show ?thesis by (simp add: Let_def)
    next
      case (Some r)
      show ?thesis
      proof (cases "content r = []")
        case True
        with Some show ?thesis by (simp add: Let_def)
      next
        case False
        from Cons.IH [of "qs @ [content r]"
            "tr @ [CtxSend (''What's question #'' @ py_str (int i) @ ''?'')]"]
        obtain x where "snd (question_loop wait js (qs @ [content r])
            (tr @ [CtxSend (''What's question #'' @ py_str (int i) @ ''?'')])) =
            (tr @ [CtxSend (''What's question #'' @ py_str (int i) @ ''?'')]) @ x" by blast
        with Some False show ?thesis by (simp add: Let_def)
      qed
    qed
  qed
  show ?thesis
  proof (cases "wait i")
    case None
    then show ?thesis by (simp add: Let_def)
  next
    case (Some r)
    show ?thesis
    proof (cases "content r = []")
      case True
      with Some show ?thesis by (simp add: Let_def)
    next
      case False
      from ext [of js "qs @ [content r]"
          "tr @ [CtxSend (''What's question #'' @ py_str (int i) @ ''?'')]"]
      obtain x where "snd (question_loop wait js (qs @ [content r])
          (tr @ [CtxSend (''What's question #'' @ py_str (int i) @ ''?'')])) =
          (tr @ [CtxSend (''What's question #'' @ py_str (int i) @ ''?'')]) @ x" by blast
      with Some False show ?thesis by (simp add: Let_def)
    qed
  qed
qed

text \<open>A text with no digit is not the text of an integer.\<close>

lemma transform_space_no_digit:
  "\<forall>c\<in>set s. \<not> isdigit c \<Longrightarrow> \<forall>c\<in>set (transform_space s). \<not> isdigit c"
  by (induction s) (auto simp: isdigit_def)

lemma scan_digits_no_digit:
  "\<forall>c\<in>set s. \<not> isdigit c \<Longrightarrow> scan_digits prev s = None \<or> (\<exists>rest. scan_digits prev s = Some ([], rest))"
  by (induction s arbitrary: prev) auto

lemma read_sign_subset: "set (snd (read_sign s)) \<subseteq> set s"
  by (cases s) auto

lemma py_int_no_digit:
  assumes "\<forall>c\<in>set s. \<not> isdigit c"
  shows "py_int s = None"
proof -
  have a: "\<forall>c\<in>set (to_ascii s). \<not> isdigit c"
    using assms transform_space_no_digit [of s] by (simp add: to_ascii_def)
  have "set (dropWhile c_isspace (to_ascii s)) \<subseteq> set (to_ascii s)"
    using set_dropWhileD by fastforce
  with a have b: "\<forall>c\<in>set (dropWhile c_isspace (to_ascii s)). \<not> isdigit c" by blast
  obtain neg str where rs: "read_sign (dropWhile c_isspace (to_ascii s)) = (neg, str)"
    by (cases "read_sign (dropWhile c_isspace (to_ascii s))") blast
  with read_sign_subset [of "dropWhile c_isspace (to_ascii s)"] b
  have c: "\<forall>c\<in>set str. \<not> isdigit c" by auto
  from scan_digits_no_digit [OF c, of "CHR 0x00"] show ?thesis
    by (auto simp: py_int_def rs)
qed

text \<open>What \<^verbatim>\<open>strip\<close> leaves of a text, and the runs that answer every question.\<close>

lemma dropWhile_all_iff: "(\<forall>x\<in>set (dropWhile P xs). P x) \<longleftrightarrow> (\<forall>x\<in>set xs. P x)"
proof
  assume a: "\<forall>x\<in>set (dropWhile P xs). P x"
  have "dropWhile P xs = []"
  proof (rule ccontr)
    assume n: "dropWhile P xs \<noteq> []"
    then have "\<not> P (hd (dropWhile P xs))" by (rule hd_dropWhile)
    moreover from n have "hd (dropWhile P xs) \<in> set (dropWhile P xs)" by simp
    ultimately show False using a by blast
  qed
  then show "\<forall>x\<in>set xs. P x" by simp
next
  assume "\<forall>x\<in>set xs. P x"
  then show "\<forall>x\<in>set (dropWhile P xs). P x" using set_dropWhileD by fastforce
qed

lemma strip_empty_iff: "strip s = [] \<longleftrightarrow> (\<forall>c\<in>set s. isspace c)"
proof -
  have "strip s = [] \<longleftrightarrow> (\<forall>c\<in>set (dropWhile isspace s). isspace c)"
    by (simp add: strip_def)
  then show ?thesis by (simp only: dropWhile_all_iff)
qed



section \<open>The claims\<close>

text \<open>
  C1 (as amended). For a configured sequence of \<open>N\<close> questions whose texts are pairwise
  distinct, if every reply arrives before its timeout, the answer record holds exactly
  \<open>N\<close> entries, one per question and in the order of the questions, each with the answer
  derived from the reply to that question.
\<close>

theorem answer_record_distinct_questions:
  assumes "questions (find_one_or_empty db) = Some qs"
    and "distinct qs"
    and "\<forall>j<length qs. wait j \<noteq> None"
  shows "run_responses (on_thread_ready b now db wait) =
           zip qs (map (\<lambda>j. derive_answer (the (wait j))) [0..<length qs]) \<and>
         length (run_responses (on_thread_ready b now db wait)) = length qs \<and>
         map fst (run_responses (on_thread_ready b now db wait)) = qs"
proof -
  have loop: "ask_loop wait 0 qs s =
      (True, s\<lparr>trace := trace s @ map ThreadReply qs,
               responses := fold (\<lambda>(q, r). dict_set q (derive_answer r))
                              (zip qs (map (\<lambda>j. the (wait j)) [0..<length qs])) (responses s),
               last_m := (if qs = [] then last_m s else wait (length qs - 1))\<rparr>)" for s
    using ask_loop_replies [of qs wait 0 s] assms(3) by simp
  have fold_eq: "fold (\<lambda>(q, r). dict_set q (derive_answer r))
                   (zip qs (map (\<lambda>j. the (wait j)) [0..<length qs])) [] =
                 zip qs (map (\<lambda>j. derive_answer (the (wait j))) [0..<length qs])"
    using fold_dict_set_distinct [of qs "[]" "map (\<lambda>j. the (wait j)) [0..<length qs]" derive_answer]
      assms(2) by (simp add: comp_def)
  have resp: "run_responses (on_thread_ready b now db wait) =
           zip qs (map (\<lambda>j. derive_answer (the (wait j))) [0..<length qs])"
  proof (cases qs)
    case Nil
    with assms(1) show ?thesis by (simp add: on_thread_ready_def)
  next
    case (Cons q qs')
    show ?thesis
      using assms(1) loop fold_eq unfolding Cons
      by (simp add: on_thread_ready_def Let_def split: sum.splits prod.splits)
  qed
  show ?thesis unfolding resp by simp
qed

text \<open>The theorem on two distinct questions that are both answered.\<close>

theorem answer_record_distinct_questions_witness:
  "questions (find_one_or_empty (Some (example_config [''a'', ''b''] ''42''))) = Some [''a'', ''b''] \<and>
   distinct [''a'', ''b''] \<and>
   run_responses (on_thread_ready example_bot 0 (Some (example_config [''a'', ''b''] ''42''))
       (\<lambda>i. if i = 0 then Some (text_reply ''yes'') else Some (text_reply ''no''))) =
     [(''a'', ''yes''), (''b'', ''no'')]"
proof -
  have h1: "questions (find_one_or_empty (Some (example_config [''a'', ''b''] ''42''))) = Some [''a'', ''b'']"
    by (simp add: find_one_or_empty_def example_config_def)
  have h2: "distinct [''a'', ''b'']" by simp
  have h3: "\<forall>j<length [''a'', ''b''].
      (\<lambda>i. if i = 0 then Some (text_reply ''yes'') else Some (text_reply ''no'')) j \<noteq> None"
    by simp
  show ?thesis
    using answer_record_distinct_questions [OF h1 h2 h3, of example_bot 0] h1
    by (simp add: upt_rec derive_answer_def text_reply_def strip_def isspace_def)
qed

text \<open>
  As stated, C1 fails when a question text occurs twice: both questions are asked and
  answered, and the record keeps one entry, with the later answer.
\<close>

theorem answer_record_duplicate_counterexample:
  "run_responses (on_thread_ready example_bot 0 (Some (example_config [''a'', ''a''] ''42''))
       (\<lambda>i. if i = 0 then Some (text_reply ''yes'') else Some (text_reply ''no''))) =
     [(''a'', ''no'')] \<and>
   length (run_responses (on_thread_ready example_bot 0 (Some (example_config [''a'', ''a''] ''42''))
       (\<lambda>i. if i = 0 then Some (text_reply ''yes'') else Some (text_reply ''no'')))) \<noteq>
     length [''a'', ''a'']"
  by (simp add: on_thread_ready_def find_one_or_empty_def example_config_def reply_if_set_def
      Let_def build_embed_def text_reply_def example_user_def relocate_def derive_answer_def
      strip_def isspace_def split: prod.splits)

text \<open>
  C3 (as amended). The answer derived from a reply is the placeholder
  \<^verbatim>\<open><No Message Content>\<close> when the text is empty or every character of it is whitespace,
  and the text itself, unchanged, when it has a character that is not whitespace
  (whitespace is what \<^verbatim>\<open>str.strip()\<close> removes: the codes 9 to 13, 28 to 32, U+0085 and
  U+00A0 among those of a \<^typ>\<open>char\<close>). When the reply has attachments, this is followed
  by one newline and then, for each attachment in order, a newline and
  \<^verbatim>\<open>`filename`: url\<close>. So an empty text with one attachment \<^verbatim>\<open>a.png\<close> gives the
  placeholder, two newlines and \<^verbatim>\<open>`a.png`: url\<close>, and a text with no attachment is
  unchanged.
\<close>

theorem derive_answer_rule:
  "derive_answer r =
     (if \<forall>c\<in>set (content r). isspace c then ''<No Message Content>'' else content r) @
     (if attachments r = [] then []
      else ''\<newline>'' @ concat (map (\<lambda>a. ''\<newline>`'' @ filename a @ ''`: '' @ url a) (attachments r))) \<and>
   derive_answer \<lparr>content = [], attachments = [\<lparr>filename = ''a.png'', url = u\<rparr>], author = w\<rparr> =
     ''<No Message Content>'' @ ''\<newline>\<newline>'' @ ''`a.png`: '' @ u"
proof -
  have "derive_answer r =
     (if strip (content r) \<noteq> [] then content r else ''<No Message Content>'') @
     (if attachments r = [] then []
      else ''\<newline>'' @ concat (map attachment_line (attachments r)))"
    by (simp add: derive_answer_def foldl_attachment_lines Let_def)
  moreover have "attachment_line = (\<lambda>a. ''\<newline>`'' @ filename a @ ''`: '' @ url a)"
    by (rule ext) (simp add: attachment_line_def)
  moreover have "(strip (content r) \<noteq> []) = (\<not> (\<forall>c\<in>set (content r). isspace c))"
    by (simp only: strip_empty_iff)
  moreover have "derive_answer \<lparr>content = [], attachments = [\<lparr>filename = ''a.png'', url = u\<rparr>], author = w\<rparr> =
     ''<No Message Content>'' @ ''\<newline>\<newline>'' @ ''`a.png`: '' @ u"
    by (simp add: derive_answer_def attachment_line_def strip_def)
  ultimately show ?thesis by simp
qed

text \<open>
  A text of a no-break space, a space and a tab with two attachments; a text of one
  no-break space alone; a text with spaces around a word and no attachment.
\<close>

theorem derive_answer_rule_witness:
  "derive_answer \<lparr>content = [CHR 0xA0, CHR '' '', CHR 0x09],
                  attachments = [\<lparr>filename = ''a.png'', url = ''https://cdn/a.png''\<rparr>,
                                 \<lparr>filename = ''b.txt'', url = ''https://cdn/b.txt''\<rparr>],
                  author = example_user\<rparr> =
     ''<No Message Content>\<newline>\<newline>`a.png`: https://cdn/a.png\<newline>`b.txt`: https://cdn/b.txt'' \<and>
   derive_answer (text_reply [CHR 0xA0]) = ''<No Message Content>'' \<and>
   derive_answer (text_reply '' yes '') = '' yes ''"
proof -
  have c: "content (text_reply t) = t" and a: "attachments (text_reply t) = []" for t
    by (simp_all add: text_reply_def)
  have A: "derive_answer \<lparr>content = [CHR 0xA0, CHR '' '', CHR 0x09],
                  attachments = [\<lparr>filename = ''a.png'', url = ''https://cdn/a.png''\<rparr>,
                                 \<lparr>filename = ''b.txt'', url = ''https://cdn/b.txt''\<rparr>],
                  author = example_user\<rparr> =
     ''<No Message Content>\<newline>\<newline>`a.png`: https://cdn/a.png\<newline>`b.txt`: https://cdn/b.txt''"
    using derive_answer_rule [of "\<lparr>content = [CHR 0xA0, CHR '' '', CHR 0x09],
                  attachments = [\<lparr>filename = ''a.png'', url = ''https://cdn/a.png''\<rparr>,
                                 \<lparr>filename = ''b.txt'', url = ''https://cdn/b.txt''\<rparr>],
                  author = example_user\<rparr>"]
    by (simp add: isspace_def)
  have B: "derive_answer (text_reply [CHR 0xA0]) = ''<No Message Content>''"
    using derive_answer_rule [of "text_reply [CHR 0xA0]"] by (simp add: c a isspace_def)
  have C: "derive_answer (text_reply '' yes '') = '' yes ''"
    using derive_answer_rule [of "text_reply '' yes ''"] by (simp add: c a isspace_def)
  from A B C show ?thesis by simp
qed

text \<open>
  As stated, C3 fails on its own example: between the placeholder and the attachment
  line there are two newlines, not one.
\<close>

theorem derive_answer_one_newline_counterexample:
  "derive_answer \<lparr>content = [], attachments = [\<lparr>filename = ''a.png'', url = ''https://cdn/a.png''\<rparr>],
                  author = example_user\<rparr>
     \<noteq> ''<No Message Content>'' @ ''\<newline>'' @ ''`a.png`: https://cdn/a.png''"
  by (simp add: derive_answer_def attachment_line_def strip_def)

text \<open>
  C8. When no questions are configured (there is no configuration document, or it has
  no \<^verbatim>\<open>questions\<close> key, or the list is empty), the handler returns at once: it makes no
  call at all, so nothing is sent and nothing is changed.
\<close>

theorem no_questions_is_noop:
  assumes "db = None \<or> (\<exists>d. db = Some d \<and> (questions d = None \<or> questions d = Some []))"
  shows "on_thread_ready b now db wait =
           \<lparr>run_trace = [], run_responses = [], run_outcome = Returned\<rparr>"
  using assms by (auto simp: on_thread_ready_def find_one_or_empty_def empty_doc_def)

text \<open>The three cases, on a bot whose recipient would answer every question.\<close>

theorem no_questions_is_noop_witness:
  "on_thread_ready example_bot 0 None (\<lambda>i. Some (text_reply ''x'')) =
     \<lparr>run_trace = [], run_responses = [], run_outcome = Returned\<rparr> \<and>
   on_thread_ready example_bot 0
       (Some \<lparr>questions = None, intro = Some ''hello'', outro = Some ''bye'', move_to = Some ''42''\<rparr>)
       (\<lambda>i. Some (text_reply ''x'')) =
     \<lparr>run_trace = [], run_responses = [], run_outcome = Returned\<rparr> \<and>
   on_thread_ready example_bot 0
       (Some \<lparr>questions = Some [], intro = Some ''hello'', outro = Some ''bye'', move_to = Some ''42''\<rparr>)
       (\<lambda>i. Some (text_reply ''x'')) =
     \<lparr>run_trace = [], run_responses = [], run_outcome = Returned\<rparr>"
  using no_questions_is_noop [of None example_bot 0 "\<lambda>i. Some (text_reply ''x'')"]
    no_questions_is_noop [of "Some \<lparr>questions = None, intro = Some ''hello'', outro = Some ''bye'', move_to = Some ''42''\<rparr>"
       example_bot 0 "\<lambda>i. Some (text_reply ''x'')"]
    no_questions_is_noop [of "Some \<lparr>questions = Some [], intro = Some ''hello'', outro = Some ''bye'', move_to = Some ''42''\<rparr>"
       example_bot 0 "\<lambda>i. Some (text_reply ''x'')"]
  by simp

text \<open>
  C2. When the wait for the reply to question \<open>k\<close> (counted from 0) times out after the
  earlier questions were answered, the handler closes the thread with the reason
  \<^verbatim>\<open>Closed due to inactivity and not responding to questions.\<close> and returns. The calls
  it made are the intro (if set), the questions up to \<open>k\<close> and that one close: no
  summary, no pin, no outro, no move. The answer record holds the answers to the
  questions before \<open>k\<close> and nothing else.
\<close>

theorem timeout_closes_and_aborts:
  assumes "questions (find_one_or_empty db) = Some qs" and "k < length qs"
    and "\<forall>j<k. wait j \<noteq> None" and "wait k = None"
  shows "on_thread_ready b now db wait =
           \<lparr>run_trace = reply_if_set (intro (find_one_or_empty db)) @
                         map ThreadReply (take (Suc k) qs) @
                         [ThreadClose ''Closed due to inactivity and not responding to questions.''],
            run_responses = fold (\<lambda>(q, r). dict_set q (derive_answer r))
                              (zip (take k qs) (map (\<lambda>j. the (wait j)) [0..<k])) [],
            run_outcome = Returned\<rparr> \<and>
         length (run_responses (on_thread_ready b now db wait)) \<le> k \<and>
         fst ` set (run_responses (on_thread_ready b now db wait)) \<subseteq> set (take k qs)"
proof -
  obtain q qs' where qs: "qs = q # qs'" using assms(2) by (cases qs) auto
  have loop: "ask_loop wait 0 qs s =
     (False, s\<lparr>trace := trace s @ map ThreadReply (take (Suc k) qs) @
                  [ThreadClose ''Closed due to inactivity and not responding to questions.''],
              responses := fold (\<lambda>(q, r). dict_set q (derive_answer r))
                             (zip (take k qs) (map (\<lambda>j. the (wait j)) [0..<k])) (responses s),
              last_m := (if k = 0 then last_m s else wait (k - 1))\<rparr>)" for s
    using ask_loop_timeout [of k qs wait 0 s] assms(2,3,4) by simp
  have run: "on_thread_ready b now db wait =
           \<lparr>run_trace = reply_if_set (intro (find_one_or_empty db)) @
                         map ThreadReply (take (Suc k) qs) @
                         [ThreadClose ''Closed due to inactivity and not responding to questions.''],
            run_responses = fold (\<lambda>(q, r). dict_set q (derive_answer r))
                              (zip (take k qs) (map (\<lambda>j. the (wait j)) [0..<k])) [],
            run_outcome = Returned\<rparr>"
    using assms(1) loop unfolding qs
    by (simp add: on_thread_ready_def Let_def split: prod.splits)
  have keys: "fst ` set (fold (\<lambda>(q, r). dict_set q (derive_answer r))
                  (zip (take k qs) (map (\<lambda>j. the (wait j)) [0..<k])) []) \<subseteq> set (take k qs)"
    and len: "length (fold (\<lambda>(q, r). dict_set q (derive_answer r))
                  (zip (take k qs) (map (\<lambda>j. the (wait j)) [0..<k])) []) \<le> k"
    using fold_dict_set_keys [of derive_answer "take k qs" "map (\<lambda>j. the (wait j)) [0..<k]" "[]"]
      assms(2) by auto
  show ?thesis unfolding run using keys len by simp
qed

text \<open>Three questions, of which only the first is answered.\<close>

theorem timeout_closes_and_aborts_witness:
  "questions (find_one_or_empty (Some (example_config [''a'', ''b'', ''c''] ''42''))) =
     Some [''a'', ''b'', ''c''] \<and>
   on_thread_ready example_bot 0 (Some (example_config [''a'', ''b'', ''c''] ''42''))
       (\<lambda>i. if i = 0 then Some (text_reply ''yes'') else None) =
     \<lparr>run_trace = [ThreadReply ''hello'', ThreadReply ''a'', ThreadReply ''b'',
                   ThreadClose ''Closed due to inactivity and not responding to questions.''],
      run_responses = [(''a'', ''yes'')], run_outcome = Returned\<rparr>"
proof -
  have h1: "questions (find_one_or_empty (Some (example_config [''a'', ''b'', ''c''] ''42''))) =
     Some [''a'', ''b'', ''c'']"
    by (simp add: find_one_or_empty_def example_config_def)
  have h2: "(1::nat) < length [''a'', ''b'', ''c'']" by simp
  have h3: "\<forall>j<(1::nat). (\<lambda>i. if i = 0 then Some (text_reply ''yes'') else None) j \<noteq> None" by simp
  have h4: "(\<lambda>i. if i = 0 then Some (text_reply ''yes'') else None) (1::nat) = None" by simp
  show ?thesis
    using timeout_closes_and_aborts [OF h1 h2 h3 h4, of example_bot 0] h1
    by (simp add: find_one_or_empty_def example_config_def reply_if_set_def derive_answer_def
        text_reply_def strip_def isspace_def)
qed

text \<open>
  C7. In a run that reaches the last step with a \<^verbatim>\<open>move_to\<close> that is the text of an
  integer: when \<^verbatim>\<open>get_channel\<close> finds a channel, the last call moves the thread's
  channel into it with \<^verbatim>\<open>sync_permissions=True\<close>; when it finds none, the last call is
  the warning, no call changes the category, and the handler returns normally.
\<close>

theorem relocation_step:
  assumes "questions (find_one_or_empty db) = Some qs" and "qs \<noteq> []"
    and "\<forall>j<length qs. wait j \<noteq> None"
    and "wait (length qs - 1) = Some r" and "avatar (author r) = Some a"
    and "move_to (find_one_or_empty db) = Some t" and "py_int t = Some n"
  shows "(get_channel b n = Some c \<longrightarrow>
            run_outcome (on_thread_ready b now db wait) = Returned \<and>
            run_trace (on_thread_ready b now db wait) =
              reply_if_set (intro (find_one_or_empty db)) @ map ThreadReply qs @
              [Sleep 1,
               ChannelSend (summary_embed b now (run_responses (on_thread_ready b now db wait)) r a),
               MessagePin (summary_embed b now (run_responses (on_thread_ready b now db wait)) r a)] @
              reply_if_set (outro (find_one_or_empty db)) @ [ChannelEdit c True]) \<and>
         (get_channel b n = None \<longrightarrow>
            run_outcome (on_thread_ready b now db wait) = Returned \<and>
            run_trace (on_thread_ready b now db wait) =
              reply_if_set (intro (find_one_or_empty db)) @ map ThreadReply qs @
              [Sleep 1,
               ChannelSend (summary_embed b now (run_responses (on_thread_ready b now db wait)) r a),
               MessagePin (summary_embed b now (run_responses (on_thread_ready b now db wait)) r a)] @
              reply_if_set (outro (find_one_or_empty db)) @
              [LogWarning ''Move-to category does not exist. Not moving.''] \<and>
            (\<forall>c' s'. ChannelEdit c' s' \<notin> set (run_trace (on_thread_ready b now db wait))))"
proof -
  note run = on_thread_ready_completed [OF assms(1-5), of b now]
  have no_edit: "ChannelEdit c' s' \<notin> set (reply_if_set x)" for c' s' x
    by (simp add: reply_if_set_def split: option.splits)
  show ?thesis
    unfolding run using assms(6,7) no_edit
    by (auto simp: Let_def relocate_def)
qed

text \<open>One question, answered; the category 42 exists and the category 43 does not.\<close>

theorem relocation_step_witness:
  "py_int ''42'' = Some 42 \<and> py_int ''43'' = Some 43 \<and>
   get_channel example_bot 42 = Some (Channel 42) \<and> get_channel example_bot 43 = None \<and>
   on_thread_ready example_bot 0 (Some (example_config [''a''] ''42'')) (\<lambda>i. Some (text_reply ''yes'')) =
     \<lparr>run_trace =
        [ThreadReply ''hello'', ThreadReply ''a'', Sleep 1,
         ChannelSend \<lparr>color = 7, timestamp = 0,
           embed_fields = [\<lparr>field_name = ''a'', field_value = ''yes'', inline = False\<rparr>],
           author_name = ''ann'', icon_url = ''https://cdn/ann.png''\<rparr>,
         MessagePin \<lparr>color = 7, timestamp = 0,
           embed_fields = [\<lparr>field_name = ''a'', field_value = ''yes'', inline = False\<rparr>],
           author_name = ''ann'', icon_url = ''https://cdn/ann.png''\<rparr>,
         ChannelEdit (Channel 42) True],
      run_responses = [(''a'', ''yes'')], run_outcome = Returned\<rparr> \<and>
   on_thread_ready example_bot 0 (Some (example_config [''a''] ''43'')) (\<lambda>i. Some (text_reply ''yes'')) =
     \<lparr>run_trace =
        [ThreadReply ''hello'', ThreadReply ''a'', Sleep 1,
         ChannelSend \<lparr>color = 7, timestamp = 0,
           embed_fields = [\<lparr>field_name = ''a'', field_value = ''yes'', inline = False\<rparr>],
           author_name = ''ann'', icon_url = ''https://cdn/ann.png''\<rparr>,
         MessagePin \<lparr>color = 7, timestamp = 0,
           embed_fields = [\<lparr>field_name = ''a'', field_value = ''yes'', inline = False\<rparr>],
           author_name = ''ann'', icon_url = ''https://cdn/ann.png''\<rparr>,
         LogWarning ''Move-to category does not exist. Not moving.''],
      run_responses = [(''a'', ''yes'')], run_outcome = Returned\<rparr>"
proof -
  have p42: "py_int ''42'' = Some 42" and p43: "py_int ''43'' = Some 43"
    by (simp_all add: py_int_eval)
  have g42: "get_channel example_bot 42 = Some (Channel 42)"
    and g43: "get_channel example_bot 43 = None"
    by (simp_all add: example_bot_def)
  have q: "questions (find_one_or_empty (Some (example_config [''a''] t))) = Some [''a'']" for t
    by (simp add: find_one_or_empty_def example_config_def)
  have m: "move_to (find_one_or_empty (Some (example_config [''a''] t))) = Some t" for t
    by (simp add: find_one_or_empty_def example_config_def)
  have ne: "[''a''] \<noteq> []" by simp
  have w: "\<forall>j<length [''a'']. (\<lambda>i. Some (text_reply ''yes'')) j \<noteq> None" by simp
  have l: "(\<lambda>i. Some (text_reply ''yes'')) (length [''a''] - 1) = Some (text_reply ''yes'')" by simp
  have a: "avatar (author (text_reply ''yes'')) = Some \<lparr>asset_url = ''https://cdn/ann.png''\<rparr>"
    by (simp add: text_reply_def example_user_def)
  have r: "run_responses (on_thread_ready example_bot 0 (Some (example_config [''a''] t))
             (\<lambda>i. Some (text_reply ''yes''))) = [(''a'', ''yes'')]" for t
    by (simp add: on_thread_ready_def find_one_or_empty_def example_config_def reply_if_set_def
      Let_def build_embed_def text_reply_def example_user_def relocate_def derive_answer_def
      strip_def isspace_def split: prod.splits option.splits)
  have e: "summary_embed example_bot 0 [(''a'', ''yes'')] (text_reply ''yes'')
             \<lparr>asset_url = ''https://cdn/ann.png''\<rparr> =
           \<lparr>color = 7, timestamp = 0,
             embed_fields = [\<lparr>field_name = ''a'', field_value = ''yes'', inline = False\<rparr>],
             author_name = ''ann'', icon_url = ''https://cdn/ann.png''\<rparr>"
    by (simp add: summary_embed_def example_bot_def text_reply_def example_user_def)
  have i: "reply_if_set (intro (find_one_or_empty (Some (example_config [''a''] t)))) = [ThreadReply ''hello'']"
    and  o: "reply_if_set (outro (find_one_or_empty (Some (example_config [''a''] t)))) = []" for t
    by (simp_all add: find_one_or_empty_def example_config_def reply_if_set_def)
  have A: "on_thread_ready example_bot 0 (Some (example_config [''a''] ''42'')) (\<lambda>i. Some (text_reply ''yes'')) =
     \<lparr>run_trace =
        [ThreadReply ''hello'', ThreadReply ''a'', Sleep 1,
         ChannelSend \<lparr>color = 7, timestamp = 0,
           embed_fields = [\<lparr>field_name = ''a'', field_value = ''yes'', inline = False\<rparr>],
           author_name = ''ann'', icon_url = ''https://cdn/ann.png''\<rparr>,
         MessagePin \<lparr>color = 7, timestamp = 0,
           embed_fields = [\<lparr>field_name = ''a'', field_value = ''yes'', inline = False\<rparr>],
           author_name = ''ann'', icon_url = ''https://cdn/ann.png''\<rparr>,
         ChannelEdit (Channel 42) True],
      run_responses = [(''a'', ''yes'')], run_outcome = Returned\<rparr>"
    using relocation_step [OF q ne w l a m p42, of example_bot "Channel 42" 0] g42
    by (simp add: r e i o run.equality)
  have B: "on_thread_ready example_bot 0 (Some (example_config [''a''] ''43'')) (\<lambda>i. Some (text_reply ''yes'')) =
     \<lparr>run_trace =
        [ThreadReply ''hello'', ThreadReply ''a'', Sleep 1,
         ChannelSend \<lparr>color = 7, timestamp = 0,
           embed_fields = [\<lparr>field_name = ''a'', field_value = ''yes'', inline = False\<rparr>],
           author_name = ''ann'', icon_url = ''https://cdn/ann.png''\<rparr>,
         MessagePin \<lparr>color = 7, timestamp = 0,
           embed_fields = [\<lparr>field_name = ''a'', field_value = ''yes'', inline = False\<rparr>],
           author_name = ''ann'', icon_url = ''https://cdn/ann.png''\<rparr>,
         LogWarning ''Move-to category does not exist. Not moving.''],
      run_responses = [(''a'', ''yes'')], run_outcome = Returned\<rparr>"
    using relocation_step [OF q ne w l a m p43, of example_bot "Channel 42" 0] g43
    by (simp add: r e i o run.equality)
  show ?thesis using p42 p43 g42 g43 A B by simp
qed




text \<open>
  C10. In a run that reaches the last step (questions configured, every question
  answered, the summary sent), a configuration without \<^verbatim>\<open>move_to\<close> ends in a
  \<^verbatim>\<open>KeyError\<close> and a \<^verbatim>\<open>move_to\<close> that \<^verbatim>\<open>int\<close> rejects, as it does every text without a
  digit, ends in a \<^verbatim>\<open>ValueError\<close>; in both cases the summary, the pin and the outro (if
  set) were already sent, and neither a warning nor a move follows. Such a run returns normally only when \<^verbatim>\<open>move_to\<close> is
  there and is the text of an integer.
\<close>

theorem relocate_raises_without_numeric_move_to:
  assumes "questions (find_one_or_empty db) = Some qs" and "qs \<noteq> []"
    and "\<forall>j<length qs. wait j \<noteq> None"
    and "wait (length qs - 1) = Some r" and "avatar (author r) = Some a"
  shows "(move_to (find_one_or_empty db) = None \<longrightarrow>
            run_outcome (on_thread_ready b now db wait) = Raised (KeyError ''move_to'')) \<and>
         (\<forall>t. move_to (find_one_or_empty db) = Some t \<and> py_int t = None \<longrightarrow>
            run_outcome (on_thread_ready b now db wait) = Raised ValueError) \<and>
         (\<forall>t. move_to (find_one_or_empty db) = Some t \<and> (\<forall>c\<in>set t. \<not> isdigit c) \<longrightarrow>
            run_outcome (on_thread_ready b now db wait) = Raised ValueError) \<and>
         (move_to (find_one_or_empty db) = None \<or>
          (\<exists>t. move_to (find_one_or_empty db) = Some t \<and> py_int t = None) \<longrightarrow>
            run_trace (on_thread_ready b now db wait) =
              reply_if_set (intro (find_one_or_empty db)) @ map ThreadReply qs @
              [Sleep 1,
               ChannelSend (summary_embed b now (run_responses (on_thread_ready b now db wait)) r a),
               MessagePin (summary_embed b now (run_responses (on_thread_ready b now db wait)) r a)] @
              reply_if_set (outro (find_one_or_empty db))) \<and>
         (run_outcome (on_thread_ready b now db wait) = Returned \<longrightarrow>
            (\<exists>t n. move_to (find_one_or_empty db) = Some t \<and> py_int t = Some n))"
proof -
  note run = on_thread_ready_completed [OF assms(1-5), of b now]
  have A: "move_to (find_one_or_empty db) = None \<longrightarrow>
            run_outcome (on_thread_ready b now db wait) = Raised (KeyError ''move_to'')"
    unfolding run by (simp add: Let_def relocate_def)
  have B: "\<forall>t. move_to (find_one_or_empty db) = Some t \<and> py_int t = None \<longrightarrow>
            run_outcome (on_thread_ready b now db wait) = Raised ValueError"
    unfolding run by (simp add: Let_def relocate_def)
  have C: "move_to (find_one_or_empty db) = None \<or>
          (\<exists>t. move_to (find_one_or_empty db) = Some t \<and> py_int t = None) \<longrightarrow>
            run_trace (on_thread_ready b now db wait) =
              reply_if_set (intro (find_one_or_empty db)) @ map ThreadReply qs @
              [Sleep 1,
               ChannelSend (summary_embed b now (run_responses (on_thread_ready b now db wait)) r a),
               MessagePin (summary_embed b now (run_responses (on_thread_ready b now db wait)) r a)] @
              reply_if_set (outro (find_one_or_empty db))"
    unfolding run by (auto simp: Let_def relocate_def)
  have D: "run_outcome (on_thread_ready b now db wait) = Returned \<longrightarrow>
            (\<exists>t n. move_to (find_one_or_empty db) = Some t \<and> py_int t = Some n)"
    unfolding run by (simp add: Let_def relocate_def split: option.splits)
  have B': "\<forall>t. move_to (find_one_or_empty db) = Some t \<and> (\<forall>c\<in>set t. \<not> isdigit c) \<longrightarrow>
            run_outcome (on_thread_ready b now db wait) = Raised ValueError"
    using B py_int_no_digit by blast
  from A B B' C D show ?thesis by blast
qed

text \<open>
  One answered question; \<^verbatim>\<open>move_to\<close> is missing, then it is \<^verbatim>\<open>abc\<close>, then it is \<^verbatim>\<open>42\<close>
  after the character of code 28, which \<^verbatim>\<open>str.strip()\<close> would remove and \<^verbatim>\<open>int\<close> does
  not accept. With \<^verbatim>\<open>42\<close> after a no-break space, which \<^verbatim>\<open>int\<close> accepts, the run returns.
\<close>

theorem relocate_raises_without_numeric_move_to_witness:
  "py_int ''abc'' = None \<and> py_int [CHR 0x1C, CHR ''4'', CHR ''2''] = None \<and>
   on_thread_ready example_bot 5
       (Some \<lparr>questions = Some [''a''], intro = None, outro = Some ''bye'', move_to = None\<rparr>)
       (\<lambda>i. Some (text_reply ''yes'')) =
     \<lparr>run_trace =
        [ThreadReply ''a'', Sleep 1,
         ChannelSend \<lparr>color = 7, timestamp = 5,
           embed_fields = [\<lparr>field_name = ''a'', field_value = ''yes'', inline = False\<rparr>],
           author_name = ''ann'', icon_url = ''https://cdn/ann.png''\<rparr>,
         MessagePin \<lparr>color = 7, timestamp = 5,
           embed_fields = [\<lparr>field_name = ''a'', field_value = ''yes'', inline = False\<rparr>],
           author_name = ''ann'', icon_url = ''https://cdn/ann.png''\<rparr>,
         ThreadReply ''bye''],
      run_responses = [(''a'', ''yes'')], run_outcome = Raised (KeyError ''move_to'')\<rparr> \<and>
   on_thread_ready example_bot 5
       (Some \<lparr>questions = Some [''a''], intro = None, outro = Some ''bye'', move_to = Some ''abc''\<rparr>)
       (\<lambda>i. Some (text_reply ''yes'')) =
     \<lparr>run_trace =
        [ThreadReply ''a'', Sleep 1,
         ChannelSend \<lparr>color = 7, timestamp = 5,
           embed_fields = [\<lparr>field_name = ''a'', field_value = ''yes'', inline = False\<rparr>],
           author_name = ''ann'', icon_url = ''https://cdn/ann.png''\<rparr>,
         MessagePin \<lparr>color = 7, timestamp = 5,
           embed_fields = [\<lparr>field_name = ''a'', field_value = ''yes'', inline = False\<rparr>],
           author_name = ''ann'', icon_url = ''https://cdn/ann.png''\<rparr>,
         ThreadReply ''bye''],
      run_responses = [(''a'', ''yes'')], run_outcome = Raised ValueError\<rparr> \<and>
   on_thread_ready example_bot 5
       (Some \<lparr>questions = Some [''a''], intro = None, outro = Some ''bye'',
              move_to = Some [CHR 0x1C, CHR ''4'', CHR ''2'']\<rparr>)
       (\<lambda>i. Some (text_reply ''yes'')) =
     \<lparr>run_trace =
        [ThreadReply ''a'', Sleep 1,
         ChannelSend \<lparr>color = 7, timestamp = 5,
           embed_fields = [\<lparr>field_name = ''a'', field_value = ''yes'', inline = False\<rparr>],
           author_name = ''ann'', icon_url = ''https://cdn/ann.png''\<rparr>,
         MessagePin \<lparr>color = 7, timestamp = 5,
           embed_fields = [\<lparr>field_name = ''a'', field_value = ''yes'', inline = False\<rparr>],
           author_name = ''ann'', icon_url = ''https://cdn/ann.png''\<rparr>,
         ThreadReply ''bye''],
      run_responses = [(''a'', ''yes'')], run_outcome = Raised ValueError\<rparr> \<and>
   py_int [CHR 0xA0, CHR ''4'', CHR ''2''] = Some 42 \<and>
   run_outcome (on_thread_ready example_bot 5
       (Some \<lparr>questions = Some [''a''], intro = None, outro = Some ''bye'',
              move_to = Some [CHR 0xA0, CHR ''4'', CHR ''2'']\<rparr>)
       (\<lambda>i. Some (text_reply ''yes''))) = Returned"
proof -
  let ?d = "\<lambda>m. Some \<lparr>questions = Some [''a''], intro = None, outro = Some ''bye'', move_to = m\<rparr>"
  let ?w = "\<lambda>i::nat. Some (text_reply ''yes'')"
  have pabc: "py_int ''abc'' = None"
    by (simp add: py_int_eval)
  have pfs: "py_int [CHR 0x1C, CHR ''4'', CHR ''2''] = None"
    by (simp add: py_int_eval)
  have q: "questions (find_one_or_empty (?d m)) = Some [''a'']" for m
    by (simp add: find_one_or_empty_def)
  have m: "move_to (find_one_or_empty (?d m)) = m" for m
    by (simp add: find_one_or_empty_def)
  have ne: "[''a''] \<noteq> []" by simp
  have w: "\<forall>j<length [''a'']. ?w j \<noteq> None" by simp
  have l: "?w (length [''a''] - 1) = Some (text_reply ''yes'')" by simp
  have a: "avatar (author (text_reply ''yes'')) = Some \<lparr>asset_url = ''https://cdn/ann.png''\<rparr>"
    by (simp add: text_reply_def example_user_def)
  have r: "run_responses (on_thread_ready example_bot 5 (?d m) ?w) = [(''a'', ''yes'')]" for m
    by (simp add: on_thread_ready_def find_one_or_empty_def reply_if_set_def
      Let_def build_embed_def text_reply_def example_user_def relocate_def derive_answer_def
      strip_def isspace_def split: prod.splits option.splits)
  have e: "summary_embed example_bot 5 [(''a'', ''yes'')] (text_reply ''yes'')
             \<lparr>asset_url = ''https://cdn/ann.png''\<rparr> =
           \<lparr>color = 7, timestamp = 5,
             embed_fields = [\<lparr>field_name = ''a'', field_value = ''yes'', inline = False\<rparr>],
             author_name = ''ann'', icon_url = ''https://cdn/ann.png''\<rparr>"
    by (simp add: summary_embed_def example_bot_def text_reply_def example_user_def)
  have i: "reply_if_set (intro (find_one_or_empty (?d m))) = []"
    and o: "reply_if_set (outro (find_one_or_empty (?d m))) = [ThreadReply ''bye'']" for m
    by (simp_all add: find_one_or_empty_def reply_if_set_def)
  have A: "on_thread_ready example_bot 5 (?d None) ?w =
     \<lparr>run_trace =
        [ThreadReply ''a'', Sleep 1,
         ChannelSend \<lparr>color = 7, timestamp = 5,
           embed_fields = [\<lparr>field_name = ''a'', field_value = ''yes'', inline = False\<rparr>],
           author_name = ''ann'', icon_url = ''https://cdn/ann.png''\<rparr>,
         MessagePin \<lparr>color = 7, timestamp = 5,
           embed_fields = [\<lparr>field_name = ''a'', field_value = ''yes'', inline = False\<rparr>],
           author_name = ''ann'', icon_url = ''https://cdn/ann.png''\<rparr>,
         ThreadReply ''bye''],
      run_responses = [(''a'', ''yes'')], run_outcome = Raised (KeyError ''move_to'')\<rparr>"
    using relocate_raises_without_numeric_move_to [OF q ne w l a, of None example_bot 5]
    by (simp add: r e i o m run.equality)
  have B: "on_thread_ready example_bot 5 (?d (Some t)) ?w =
     \<lparr>run_trace =
        [ThreadReply ''a'', Sleep 1,
         ChannelSend \<lparr>color = 7, timestamp = 5,
           embed_fields = [\<lparr>field_name = ''a'', field_value = ''yes'', inline = False\<rparr>],
           author_name = ''ann'', icon_url = ''https://cdn/ann.png''\<rparr>,
         MessagePin \<lparr>color = 7, timestamp = 5,
           embed_fields = [\<lparr>field_name = ''a'', field_value = ''yes'', inline = False\<rparr>],
           author_name = ''ann'', icon_url = ''https://cdn/ann.png''\<rparr>,
         ThreadReply ''bye''],
      run_responses = [(''a'', ''yes'')], run_outcome = Raised ValueError\<rparr>"
    if "py_int t = None" for t
    using relocate_raises_without_numeric_move_to [OF q ne w l a, of "Some t" example_bot 5] that
    by (simp add: r e i o m run.equality)
  have pnb: "py_int [CHR 0xA0, CHR ''4'', CHR ''2''] = Some 42"
    by (simp add: py_int_eval)
  have C: "run_outcome (on_thread_ready example_bot 5 (?d (Some [CHR 0xA0, CHR ''4'', CHR ''2''])) ?w) =
      Returned"
    by (simp add: on_thread_ready_def find_one_or_empty_def reply_if_set_def
      Let_def build_embed_def text_reply_def example_user_def relocate_def pnb example_bot_def
      split: prod.splits)
  show ?thesis using pabc pfs pnb A B [OF pabc] B [OF pfs] C by simp
qed

text \<open>
  C4 (as amended). In \<^verbatim>\<open>configquestions\<close> the reply to the count prompt is parsed with
  \<^verbatim>\<open>int\<close>. A reply that \<^verbatim>\<open>int\<close> rejects, as it does every text without a digit, ends the
  command with \<^verbatim>\<open>Invalid input.\<close> after the prompt, and the store is as before. Every
  integer leads on: a count of zero or less runs no iteration of the loop, so the
  command writes an empty question list with \<^verbatim>\<open>move_to\<close> and answers \<^verbatim>\<open>Saved\<close>; a
  positive count asks for question 1 next.
\<close>

theorem count_reply_is_parsed_as_integer:
  assumes "wait 0 = Some r"
  shows "(py_int (content r) = None \<longrightarrow>
            configquestions move_to_id db wait =
              \<lparr>cmd_trace = [CtxSend ''How many questions do you have?'', CtxSend ''Invalid input.''],
               cmd_db = db\<rparr>) \<and>
         ((\<forall>c\<in>set (content r). \<not> isdigit c) \<longrightarrow>
            configquestions move_to_id db wait =
              \<lparr>cmd_trace = [CtxSend ''How many questions do you have?'', CtxSend ''Invalid input.''],
               cmd_db = db\<rparr>) \<and>
         (\<forall>count. py_int (content r) = Some count \<and> count \<le> 0 \<longrightarrow>
            configquestions move_to_id db wait =
              \<lparr>cmd_trace =
                 [CtxSend ''How many questions do you have?'',
                  FindOneAndUpdate \<lparr>questions = Some [], intro = None, outro = None,
                                    move_to = Some (py_str move_to_id)\<rparr>,
                  CtxSend ''Saved''],
               cmd_db = find_one_and_update db
                          \<lparr>questions = Some [], intro = None, outro = None,
                           move_to = Some (py_str move_to_id)\<rparr>\<rparr>) \<and>
         (\<forall>count. py_int (content r) = Some count \<and> 0 < count \<longrightarrow>
            take 2 (cmd_trace (configquestions move_to_id db wait)) =
              [CtxSend ''How many questions do you have?'', CtxSend ''What's question #1?''])"
proof -
  have A: "py_int (content r) = None \<longrightarrow>
            configquestions move_to_id db wait =
              \<lparr>cmd_trace = [CtxSend ''How many questions do you have?'', CtxSend ''Invalid input.''],
               cmd_db = db\<rparr>"
    using assms by (simp add: configquestions_def)
  have B: "\<forall>count. py_int (content r) = Some count \<and> count \<le> 0 \<longrightarrow>
            configquestions move_to_id db wait =
              \<lparr>cmd_trace =
                 [CtxSend ''How many questions do you have?'',
                  FindOneAndUpdate \<lparr>questions = Some [], intro = None, outro = None,
                                    move_to = Some (py_str move_to_id)\<rparr>,
                  CtxSend ''Saved''],
               cmd_db = find_one_and_update db
                          \<lparr>questions = Some [], intro = None, outro = None,
                           move_to = Some (py_str move_to_id)\<rparr>\<rparr>"
    using assms by (simp add: configquestions_def Let_def)
  have C: "take 2 (cmd_trace (configquestions move_to_id db wait)) =
              [CtxSend ''How many questions do you have?'', CtxSend ''What's question #1?'']"
    if c: "py_int (content r) = Some count" "0 < count" for count
  proof -
    from c(2) have "(1::nat) < Suc (nat count)" by simp
    then have "[1..<Suc (nat count)] = 1 # [Suc 1..<Suc (nat count)]"
      by (rule upt_conv_Cons)
    then have up: "[1..<Suc (nat count)] = 1 # [2..<Suc (nat count)]"
      by (simp add: numeral_2_eq_2)
    have one: "py_str (int 1) = ''1''" by (simp add: py_str_def)
    obtain res tr1 where q: "question_loop wait [1..<Suc (nat count)] []
          [CtxSend ''How many questions do you have?''] = (res, tr1)"
      by (cases "question_loop wait [1..<Suc (nat count)] []
          [CtxSend ''How many questions do you have?'']") blast
    obtain x where "snd (question_loop wait (1 # [2..<Suc (nat count)]) []
          [CtxSend ''How many questions do you have?'']) =
        [CtxSend ''How many questions do you have?''] @
        CtxSend (''What's question #'' @ py_str (int 1) @ ''?'') # x"
      using question_loop_first_prompt by blast
    with q have tr1: "tr1 = CtxSend ''How many questions do you have?'' #
        CtxSend ''What's question #1?'' # x"
      unfolding up one by simp
    have "cmd_trace (configquestions move_to_id db wait) = tr1 \<or>
          (\<exists>y. cmd_trace (configquestions move_to_id db wait) = tr1 @ y)"
      using assms c(1) q
      by (cases res) (simp_all add: configquestions_def Let_def del: upt_Suc)
    then show ?thesis unfolding tr1 by auto
  qed
  have A': "(\<forall>c\<in>set (content r). \<not> isdigit c) \<longrightarrow>
            configquestions move_to_id db wait =
              \<lparr>cmd_trace = [CtxSend ''How many questions do you have?'', CtxSend ''Invalid input.''],
               cmd_db = db\<rparr>"
  proof
    assume "\<forall>c\<in>set (content r). \<not> isdigit c"
    then have "py_int (content r) = None" by (rule py_int_no_digit)
    with A show "configquestions move_to_id db wait =
              \<lparr>cmd_trace = [CtxSend ''How many questions do you have?'', CtxSend ''Invalid input.''],
               cmd_db = db\<rparr>"
      by simp
  qed
  from A A' B C show ?thesis by blast
qed

text \<open>
  On a store that holds a configuration: the reply \<^verbatim>\<open>abc\<close>; the reply \<^verbatim>\<open>2\<close> after the
  character of code 28, which \<^verbatim>\<open>int\<close> does not accept; the reply \<^verbatim>\<open>2\<close> after a no-break
  space, which it accepts.
\<close>

theorem count_reply_is_parsed_as_integer_witness:
  "py_int ''abc'' = None \<and>
   configquestions 42 (Some (example_config [''a''] ''7'')) (\<lambda>i. Some (text_reply ''abc'')) =
     \<lparr>cmd_trace = [CtxSend ''How many questions do you have?'', CtxSend ''Invalid input.''],
      cmd_db = Some (example_config [''a''] ''7'')\<rparr> \<and>
   py_int [CHR 0x1C, CHR ''2''] = None \<and>
   configquestions 42 (Some (example_config [''a''] ''7''))
       (\<lambda>i. Some (text_reply [CHR 0x1C, CHR ''2''])) =
     \<lparr>cmd_trace = [CtxSend ''How many questions do you have?'', CtxSend ''Invalid input.''],
      cmd_db = Some (example_config [''a''] ''7'')\<rparr> \<and>
   py_int [CHR 0xA0, CHR ''2''] = Some 2 \<and>
   take 2 (cmd_trace (configquestions 42 (Some (example_config [''a''] ''7''))
       (\<lambda>i. Some (text_reply [CHR 0xA0, CHR ''2''])))) =
     [CtxSend ''How many questions do you have?'', CtxSend ''What's question #1?'']"
proof -
  let ?db = "Some (example_config [''a''] ''7'')"
  have h: "(\<lambda>i. Some (text_reply t)) (0::nat) = Some (text_reply t)" for t by simp
  have c: "content (text_reply t) = t" for t by (simp add: text_reply_def)
  have pabc: "py_int ''abc'' = None"
    by (simp add: py_int_eval)
  have pfs: "py_int [CHR 0x1C, CHR ''2''] = None"
    by (simp add: py_int_eval)
  have pnb: "py_int [CHR 0xA0, CHR ''2''] = Some 2"
    by (simp add: py_int_eval)
  have A: "configquestions 42 ?db (\<lambda>i. Some (text_reply t)) =
     \<lparr>cmd_trace = [CtxSend ''How many questions do you have?'', CtxSend ''Invalid input.''],
      cmd_db = ?db\<rparr>" if "py_int t = None" for t
    using count_reply_is_parsed_as_integer [OF h [of t], where move_to_id = 42 and db = ?db] that
    by (simp add: c)
  have B: "take 2 (cmd_trace (configquestions 42 ?db (\<lambda>i. Some (text_reply [CHR 0xA0, CHR ''2''])))) =
     [CtxSend ''How many questions do you have?'', CtxSend ''What's question #1?'']"
    using count_reply_is_parsed_as_integer [OF h [of "[CHR 0xA0, CHR ''2'']"],
        where move_to_id = 42 and db = ?db] pnb
    by (simp add: c)
  show ?thesis using pabc pfs pnb A [OF pabc] A [OF pfs] B by simp
qed

text \<open>
  As stated, C4 fails on the replies \<^verbatim>\<open>0\<close> and \<^verbatim>\<open>-3\<close>: neither is a positive integer,
  and both end in a write of an empty question list and \<^verbatim>\<open>Saved\<close>.
\<close>

theorem count_zero_or_negative_counterexample:
  "py_int ''0'' = Some 0 \<and>
   configquestions 42 None (\<lambda>i. Some (text_reply ''0'')) =
     \<lparr>cmd_trace =
        [CtxSend ''How many questions do you have?'',
         FindOneAndUpdate \<lparr>questions = Some [], intro = None, outro = None, move_to = Some ''42''\<rparr>,
         CtxSend ''Saved''],
      cmd_db = Some \<lparr>questions = Some [], intro = None, outro = None, move_to = Some ''42''\<rparr>\<rparr> \<and>
   py_int ''-3'' = Some (- 3) \<and>
   configquestions 42 None (\<lambda>i. Some (text_reply ''-3'')) =
     \<lparr>cmd_trace =
        [CtxSend ''How many questions do you have?'',
         FindOneAndUpdate \<lparr>questions = Some [], intro = None, outro = None, move_to = Some ''42''\<rparr>,
         CtxSend ''Saved''],
      cmd_db = Some \<lparr>questions = Some [], intro = None, outro = None, move_to = Some ''42''\<rparr>\<rparr>"
proof -
  have p0: "py_int ''0'' = Some 0" and p3: "py_int ''-3'' = Some (- 3)"
    by (simp_all add: py_int_eval)
  have s: "py_str 42 = ''42''" by (simp add: py_str_def)
  show ?thesis
    by (simp add: p0 p3 s configquestions_def text_reply_def Let_def find_one_and_update_def
        find_one_or_empty_def empty_doc_def)
qed

text \<open>
  C5. In \<^verbatim>\<open>configquestions\<close>, when the count is read and the questions before number
  \<open>i\<close> are answered with text, an empty reply to the prompt for question \<open>i\<close> ends the
  command: the calls are the count prompt, the prompts for the questions 1 to \<open>i\<close> and
  \<^verbatim>\<open>Question must be text-only.\<close>, and the store is as before, with neither a question
  list nor \<^verbatim>\<open>move_to\<close> written. A run that writes to the store, or leaves it changed,
  is one in which the count was read and every question from 1 to the count was
  answered with text.
\<close>

theorem empty_question_aborts_unsaved:
  "(wait 0 = Some r0 \<and> py_int (content r0) = Some count \<and> 1 \<le> i \<and> int i \<le> count \<and>
    (\<forall>j. 1 \<le> j \<and> j < i \<longrightarrow> (\<exists>m. wait j = Some m \<and> content m \<noteq> [])) \<and>
    wait i = Some r \<and> content r = [] \<longrightarrow>
      configquestions move_to_id db wait =
        \<lparr>cmd_trace =
           CtxSend ''How many questions do you have?'' #
           map (\<lambda>j. CtxSend (''What's question #'' @ py_str (int j) @ ''?'')) [1..<Suc i] @
           [CtxSend ''Question must be text-only.''],
         cmd_db = db\<rparr>) \<and>
   (FindOneAndUpdate u \<in> set (cmd_trace (configquestions move_to_id db wait)) \<or>
    cmd_db (configquestions move_to_id db wait) \<noteq> db \<longrightarrow>
      (\<exists>r0 count. wait 0 = Some r0 \<and> py_int (content r0) = Some count \<and>
         (\<forall>j. 1 \<le> j \<and> int j \<le> count \<longrightarrow> (\<exists>m. wait j = Some m \<and> content m \<noteq> []))))"
proof -
  have A: "configquestions move_to_id db wait =
        \<lparr>cmd_trace =
           CtxSend ''How many questions do you have?'' #
           map (\<lambda>j. CtxSend (''What's question #'' @ py_str (int j) @ ''?'')) [1..<Suc i] @
           [CtxSend ''Question must be text-only.''],
         cmd_db = db\<rparr>"
    if h: "wait 0 = Some r0" "py_int (content r0) = Some count" "1 \<le> i" "int i \<le> count"
      "\<forall>j. 1 \<le> j \<and> j < i \<longrightarrow> (\<exists>m. wait j = Some m \<and> content m \<noteq> [])"
      "wait i = Some r" "content r = []"
  proof -
    from h(3,4) have le: "i \<le> nat count" by linarith
    have split: "[1..<Suc (nat count)] = [1..<i] @ i # [Suc i..<Suc (nat count)]"
    proof -
      have "[1..<i + (Suc (nat count) - i)] = [1..<i] @ [i..<i + (Suc (nat count) - i)]"
        using h(3) by (rule upt_add_eq_append)
      moreover have "i + (Suc (nat count) - i) = Suc (nat count)"
        using le by simp
      ultimately have "[1..<Suc (nat count)] = [1..<i] @ [i..<Suc (nat count)]"
        by simp
      moreover have "[i..<Suc (nat count)] = i # [Suc i..<Suc (nat count)]"
        using le by (intro upt_conv_Cons) simp
      ultimately show ?thesis by simp
    qed
    have pre: "\<forall>j\<in>set [1..<i]. \<exists>m. wait j = Some m \<and> content m \<noteq> []"
      using h(5) by auto
    have last: "[1..<i] @ [i] = [1..<Suc i]"
      using h(3) by simp
    have q: "question_loop wait [1..<Suc (nat count)] [] [CtxSend ''How many questions do you have?''] =
        (None, [CtxSend ''How many questions do you have?''] @
           map (\<lambda>j. CtxSend (''What's question #'' @ py_str (int j) @ ''?'')) [1..<Suc i] @
           [CtxSend ''Question must be text-only.''])"
      unfolding split
      using question_loop_empty_reply [OF pre h(6,7), of "[Suc i..<Suc (nat count)]" "[]"
          "[CtxSend ''How many questions do you have?'']"]
      unfolding last .
    show ?thesis
      using h(1,2) q by (simp add: configquestions_def Let_def del: upt_Suc)
  qed
  have B: "\<exists>r0 count. wait 0 = Some r0 \<and> py_int (content r0) = Some count \<and>
         (\<forall>j. 1 \<le> j \<and> int j \<le> count \<longrightarrow> (\<exists>m. wait j = Some m \<and> content m \<noteq> []))"
    if h: "FindOneAndUpdate u \<in> set (cmd_trace (configquestions move_to_id db wait)) \<or>
           cmd_db (configquestions move_to_id db wait) \<noteq> db"
  proof (cases "wait 0")
    case None
    with h show ?thesis by (simp add: configquestions_def)
  next
    case (Some r0)
    show ?thesis
    proof (cases "py_int (content r0)")
      case None
      with Some h show ?thesis by (simp add: configquestions_def)
    next
      case (Some count)
      obtain res tr1 where q: "question_loop wait [1..<Suc (nat count)] []
            [CtxSend ''How many questions do you have?''] = (res, tr1)"
        by (cases "question_loop wait [1..<Suc (nat count)] []
            [CtxSend ''How many questions do you have?'']") blast
      have "res \<noteq> None"
      proof
        assume n: "res = None"
        with q \<open>wait 0 = Some r0\<close> Some
        have c: "configquestions move_to_id db wait = \<lparr>cmd_trace = tr1, cmd_db = db\<rparr>"
          by (simp add: configquestions_def Let_def del: upt_Suc)
        from question_loop_no_update [OF q, of u] have "FindOneAndUpdate u \<notin> set tr1" by auto
        with h c show False by simp
      qed
      then obtain qs where "res = Some qs" by blast
      with q have all: "\<forall>j\<in>set [1..<Suc (nat count)]. \<exists>m. wait j = Some m \<and> content m \<noteq> []"
        using question_loop_completes by blast
      have "\<forall>j. 1 \<le> j \<and> int j \<le> count \<longrightarrow> (\<exists>m. wait j = Some m \<and> content m \<noteq> [])"
      proof (intro allI impI)
        fix j assume "1 \<le> j \<and> int j \<le> count"
        then have "j \<in> set [1..<Suc (nat count)]" by auto
        with all show "\<exists>m. wait j = Some m \<and> content m \<noteq> []" by blast
      qed
      with \<open>wait 0 = Some r0\<close> Some show ?thesis by blast
    qed
  qed
  from A B show ?thesis by blast
qed

text \<open>A count of 2 and an empty reply to the first question.\<close>

theorem empty_question_aborts_unsaved_witness:
  "py_int ''2'' = Some 2 \<and> content (text_reply []) = [] \<and>
   configquestions 42 (Some (example_config [''a''] ''7''))
       (\<lambda>i. if i = 0 then Some (text_reply ''2'') else Some (text_reply [])) =
     \<lparr>cmd_trace =
        [CtxSend ''How many questions do you have?'', CtxSend ''What's question #1?'',
         CtxSend ''Question must be text-only.''],
      cmd_db = Some (example_config [''a''] ''7'')\<rparr>"
proof -
  let ?w = "\<lambda>i::nat. if i = 0 then Some (text_reply ''2'') else Some (text_reply [])"
  have p: "py_int ''2'' = Some 2"
    by (simp add: py_int_eval)
  have c2: "content (text_reply ''2'') = ''2''" and c0: "content (text_reply []) = []"
    by (simp_all add: text_reply_def)
  have s: "py_str (int 1) = ''1''" by (simp add: py_str_def)
  have h: "?w 0 = Some (text_reply ''2'') \<and> py_int (content (text_reply ''2'')) = Some 2 \<and>
      1 \<le> (1::nat) \<and> int 1 \<le> 2 \<and>
      (\<forall>j. 1 \<le> j \<and> j < 1 \<longrightarrow> (\<exists>m. ?w j = Some m \<and> content m \<noteq> [])) \<and>
      ?w 1 = Some (text_reply []) \<and> content (text_reply []) = []"
    by (simp add: p c2 c0)
  from empty_question_aborts_unsaved [where wait = ?w and ?r0.0 = "text_reply ''2''" and count = 2
      and i = 1 and r = "text_reply []" and move_to_id = 42
      and db = "Some (example_config [''a''] ''7'')"] h
  have "configquestions 42 (Some (example_config [''a''] ''7'')) ?w =
     \<lparr>cmd_trace =
        CtxSend ''How many questions do you have?'' #
        map (\<lambda>j. CtxSend (''What's question #'' @ py_str (int j) @ ''?'')) [1..<Suc 1] @
        [CtxSend ''Question must be text-only.''],
      cmd_db = Some (example_config [''a''] ''7'')\<rparr>"
    by blast
  then show ?thesis using p c0 s by simp
qed

text \<open>
  C6. Every write of a configuration command is a merge into the document of the
  store. The outro command leaves \<^verbatim>\<open>questions\<close> and \<^verbatim>\<open>intro\<close> as they were, the intro
  command leaves \<^verbatim>\<open>questions\<close> and \<^verbatim>\<open>outro\<close>, the questions command leaves \<^verbatim>\<open>intro\<close>
  and \<^verbatim>\<open>outro\<close>. The \<^verbatim>\<open>$set\<close> document of each command holds its own field and \<^verbatim>\<open>move_to\<close>
  (the text of the category id) and nothing else, and the store after the command is
  the merge of that document into the store before. A non-empty reply to the outro
  command gives the former document with \<^verbatim>\<open>outro\<close> and \<^verbatim>\<open>move_to\<close> replaced; and the
  outro command on a document with a \<^verbatim>\<open>questions\<close> field leaves a document with the
  same \<^verbatim>\<open>questions\<close> field, whatever the reply.
\<close>

theorem config_write_is_merge:
  "questions (find_one_or_empty (cmd_db (configoutro move_to_id db wait))) =
     questions (find_one_or_empty db) \<and>
   intro (find_one_or_empty (cmd_db (configoutro move_to_id db wait))) =
     intro (find_one_or_empty db) \<and>
   questions (find_one_or_empty (cmd_db (configintro move_to_id db wait))) =
     questions (find_one_or_empty db) \<and>
   outro (find_one_or_empty (cmd_db (configintro move_to_id db wait))) =
     outro (find_one_or_empty db) \<and>
   intro (find_one_or_empty (cmd_db (configquestions move_to_id db wait))) =
     intro (find_one_or_empty db) \<and>
   outro (find_one_or_empty (cmd_db (configquestions move_to_id db wait))) =
     outro (find_one_or_empty db) \<and>
   (FindOneAndUpdate u \<in> set (cmd_trace (configoutro move_to_id db wait)) \<longrightarrow>
      questions u = None \<and> intro u = None \<and> outro u \<noteq> None \<and>
      move_to u = Some (py_str move_to_id) \<and>
      cmd_db (configoutro move_to_id db wait) = find_one_and_update db u) \<and>
   (FindOneAndUpdate u \<in> set (cmd_trace (configintro move_to_id db wait)) \<longrightarrow>
      questions u = None \<and> intro u \<noteq> None \<and> outro u = None \<and>
      move_to u = Some (py_str move_to_id) \<and>
      cmd_db (configintro move_to_id db wait) = find_one_and_update db u) \<and>
   (FindOneAndUpdate u \<in> set (cmd_trace (configquestions move_to_id db wait)) \<longrightarrow>
      questions u \<noteq> None \<and> intro u = None \<and> outro u = None \<and>
      move_to u = Some (py_str move_to_id) \<and>
      cmd_db (configquestions move_to_id db wait) = find_one_and_update db u) \<and>
   (wait 0 = Some r \<and> content r \<noteq> [] \<longrightarrow>
      cmd_db (configoutro move_to_id db wait) =
        Some ((find_one_or_empty db)\<lparr>outro := Some (content r),
                                      move_to := Some (py_str move_to_id)\<rparr>)) \<and>
   (db = Some d \<and> questions d = Some qs \<longrightarrow>
      (\<exists>d'. cmd_db (configoutro move_to_id db wait) = Some d' \<and> questions d' = Some qs))"
proof -
  have O1: "questions (find_one_or_empty (cmd_db (configoutro move_to_id db wait))) =
     questions (find_one_or_empty db)"
    and O2: "intro (find_one_or_empty (cmd_db (configoutro move_to_id db wait))) =
     intro (find_one_or_empty db)"
    by (simp_all add: configoutro_def Let_def find_one_and_update_def find_one_or_empty_def
        split: option.splits)
  have I1: "questions (find_one_or_empty (cmd_db (configintro move_to_id db wait))) =
     questions (find_one_or_empty db)"
    and I2: "outro (find_one_or_empty (cmd_db (configintro move_to_id db wait))) =
     outro (find_one_or_empty db)"
    by (simp_all add: configintro_def Let_def find_one_and_update_def find_one_or_empty_def
        split: option.splits)
  have Q1: "intro (find_one_or_empty (cmd_db (configquestions move_to_id db wait))) =
     intro (find_one_or_empty db)"
    and Q2: "outro (find_one_or_empty (cmd_db (configquestions move_to_id db wait))) =
     outro (find_one_or_empty db)"
    by (simp_all add: configquestions_def Let_def find_one_and_update_def find_one_or_empty_def
        split: option.splits prod.splits del: upt_Suc)
  have OU: "FindOneAndUpdate u \<in> set (cmd_trace (configoutro move_to_id db wait)) \<longrightarrow>
      questions u = None \<and> intro u = None \<and> outro u \<noteq> None \<and>
      move_to u = Some (py_str move_to_id) \<and>
      cmd_db (configoutro move_to_id db wait) = find_one_and_update db u"
    by (auto simp: configoutro_def Let_def split: option.splits)
  have IU: "FindOneAndUpdate u \<in> set (cmd_trace (configintro move_to_id db wait)) \<longrightarrow>
      questions u = None \<and> intro u \<noteq> None \<and> outro u = None \<and>
      move_to u = Some (py_str move_to_id) \<and>
      cmd_db (configintro move_to_id db wait) = find_one_and_update db u"
    by (auto simp: configintro_def Let_def split: option.splits)
  have QU: "FindOneAndUpdate u \<in> set (cmd_trace (configquestions move_to_id db wait)) \<longrightarrow>
      questions u \<noteq> None \<and> intro u = None \<and> outro u = None \<and>
      move_to u = Some (py_str move_to_id) \<and>
      cmd_db (configquestions move_to_id db wait) = find_one_and_update db u"
  proof
    assume a: "FindOneAndUpdate u \<in> set (cmd_trace (configquestions move_to_id db wait))"
    show "questions u \<noteq> None \<and> intro u = None \<and> outro u = None \<and>
      move_to u = Some (py_str move_to_id) \<and>
      cmd_db (configquestions move_to_id db wait) = find_one_and_update db u"
    proof (cases "wait 0")
      case None
      with a show ?thesis by (simp add: configquestions_def)
    next
      case (Some r0)
      show ?thesis
      proof (cases "py_int (content r0)")
        case None
        with Some a show ?thesis by (simp add: configquestions_def)
      next
        case (Some count)
        obtain res tr1 where q: "question_loop wait [1..<Suc (nat count)] []
              [CtxSend ''How many questions do you have?''] = (res, tr1)"
          by (cases "question_loop wait [1..<Suc (nat count)] []
              [CtxSend ''How many questions do you have?'']") blast
        from question_loop_no_update [OF q, of u] have n: "FindOneAndUpdate u \<notin> set tr1" by auto
        show ?thesis
        proof (cases res)
          case None
          with q \<open>wait 0 = Some r0\<close> Some a n show ?thesis
            by (simp add: configquestions_def Let_def del: upt_Suc)
        next
          case (Some qs)
          with q \<open>wait 0 = Some r0\<close> \<open>py_int (content r0) = Some count\<close> a n show ?thesis
            by (auto simp: configquestions_def Let_def simp del: upt_Suc)
        qed
      qed
    qed
  qed
  have OS: "wait 0 = Some r \<and> content r \<noteq> [] \<longrightarrow>
      cmd_db (configoutro move_to_id db wait) =
        Some ((find_one_or_empty db)\<lparr>outro := Some (content r),
                                      move_to := Some (py_str move_to_id)\<rparr>)"
    by (simp add: configoutro_def Let_def find_one_and_update_def)
  have OQ: "db = Some d \<and> questions d = Some qs \<longrightarrow>
      (\<exists>d'. cmd_db (configoutro move_to_id db wait) = Some d' \<and> questions d' = Some qs)"
    by (simp add: configoutro_def Let_def find_one_and_update_def find_one_or_empty_def
        split: option.splits)
  from O1 O2 I1 I2 Q1 Q2 OU IU QU OS OQ show ?thesis by blast
qed

text \<open>
  The outro \<^verbatim>\<open>bye\<close> for the category 43, on a document with one question, an intro and
  the category 42.
\<close>

theorem config_write_is_merge_witness:
  "configoutro 43 (Some (example_config [''a''] ''42'')) (\<lambda>i. Some (text_reply ''bye'')) =
     \<lparr>cmd_trace =
        [CtxSend ''Type the outro you want'',
         FindOneAndUpdate \<lparr>questions = None, intro = None, outro = Some ''bye'', move_to = Some ''43''\<rparr>,
         CtxSend ''Saved''],
      cmd_db = Some \<lparr>questions = Some [''a''], intro = Some ''hello'', outro = Some ''bye'',
                     move_to = Some ''43''\<rparr>\<rparr>"
proof -
  let ?w = "\<lambda>i::nat. Some (text_reply ''bye'')"
  let ?db = "Some (example_config [''a''] ''42'')"
  let ?u = "\<lparr>questions = None, intro = None, outro = Some ''bye'', move_to = Some ''43''\<rparr>"
  have s: "py_str 43 = ''43''" by (simp add: py_str_def)
  have t: "cmd_trace (configoutro 43 ?db ?w) =
        [CtxSend ''Type the outro you want'', FindOneAndUpdate ?u, CtxSend ''Saved'']"
    by (simp add: configoutro_def Let_def text_reply_def s)
  have h: "?w 0 = Some (text_reply ''bye'') \<and> content (text_reply ''bye'') \<noteq> []"
    by (simp add: text_reply_def)
  from config_write_is_merge [where wait = ?w and r = "text_reply ''bye''" and move_to_id = 43
      and db = ?db] h
  have "cmd_db (configoutro 43 ?db ?w) =
        Some ((find_one_or_empty ?db)\<lparr>outro := Some (content (text_reply ''bye'')),
                                     move_to := Some (py_str 43)\<rparr>)"
    by blast
  then have d: "cmd_db (configoutro 43 ?db ?w) =
      Some \<lparr>questions = Some [''a''], intro = Some ''hello'', outro = Some ''bye'',
                     move_to = Some ''43''\<rparr>"
    by (simp add: s find_one_or_empty_def example_config_def text_reply_def)
  show ?thesis using t d by (simp add: cmd_run.equality)
qed

end
